theory Spec2Isabelle
  imports Main "HOL-Library.Word"
begin

section \<open>Vim Title Edit: the plugin of \<^verbatim>\<open>src/main.ts\<close>\<close>

subsection \<open>JavaScript strings\<close>

text \<open>
  A JavaScript string is a sequence of UTF-16 code units. \<open>js\<close> writes an ASCII literal of
  the source as such a sequence. A string is falsy exactly when it is empty.
\<close>

type_synonym jsstring = "16 word list"

definition js :: "string \<Rightarrow> jsstring" where
  "js s = map (\<lambda>c. of_nat (of_char c)) s"

text \<open>
  \<^verbatim>\<open>String.prototype.trim\<close> removes the white space and line terminator code units of
  ECMAScript from both ends: TAB, LF, VT, FF, CR, SP, NBSP, the space separators and
  U+2028, U+2029, U+FEFF.
\<close>

definition isWhiteSpace :: "16 word \<Rightarrow> bool" where
  "isWhiteSpace c \<longleftrightarrow>
     List.member [0x9, 0xA, 0xB, 0xC, 0xD, 0x20, 0xA0, 0x1680,
       0x2000, 0x2001, 0x2002, 0x2003, 0x2004, 0x2005, 0x2006, 0x2007, 0x2008, 0x2009, 0x200A,
       0x2028, 0x2029, 0x202F, 0x205F, 0x3000, 0xFEFF] c"

definition trim :: "jsstring \<Rightarrow> jsstring" where
  "trim s = rev (dropWhile isWhiteSpace (rev (dropWhile isWhiteSpace s)))"

subsection \<open>The host: documents, DOM elements, events\<close>

text \<open>A DOM element is known by its identity only.\<close>

type_synonym elem = nat

record position =
  line :: nat
  ch :: nat

text \<open>\<open>parent\<close> is the path of the parent folder; \<open>None\<close> when \<^verbatim>\<open>file.parent\<close> is null.\<close>

record tfile =
  basename :: jsstring
  parent :: "jsstring option"

text \<open>
  A MarkdownView: its container element, its file (\<open>viewFile\<close>, null when none backs it) and the
  cursor of its editor.
\<close>

record view =
  containerEl :: elem
  viewFile :: "tfile option"
  cursor :: position

record event =
  key :: jsstring
  target :: elem
  defaultPrevented :: bool
  propagationStopped :: bool

datatype evtype = EvInput | EvKeydown

text \<open>
  The two arrow functions that \<^verbatim>\<open>focusTitle\<close> creates. Every evaluation of an arrow
  function yields a new object, and \<^verbatim>\<open>removeEventListener\<close> compares by identity: the
  number is that identity. The input handler captures the title element.
\<close>

datatype closure = TitleInputHandler nat elem | TitleKeyHandler nat

datatype listener = Listener evtype closure bool

datatype focus = NoFocus | ElemFocus elem | EditorFocus elem

text \<open>
  The world outside the plugin object. \<open>activeView\<close> is what
  \<^verbatim>\<open>workspace.getActiveViewOfType(MarkdownView)\<close> returns; \<open>closest\<close>, \<open>querySelector\<close>,
  \<open>classListContains\<close> and \<open>textContent\<close> answer the DOM queries of the source;
  \<open>listeners\<close> holds every attached listener with its element, in the order of
  attachment; \<open>selection\<close> is
  \<^verbatim>\<open>window.getSelection()\<close>: \<open>None\<close> when it is null, otherwise the element at whose end the
  collapsed range sits, if any range is set; \<open>notices\<close> are the messages shown, \<open>renames\<close>
  the calls of \<^verbatim>\<open>fileManager.renameFile\<close>, both oldest first; \<open>nextId\<close> numbers the next
  function object.
\<close>

record world =
  activeView :: "view option"
  closest :: "elem \<Rightarrow> jsstring \<Rightarrow> elem option"
  querySelector :: "elem \<Rightarrow> jsstring \<Rightarrow> elem option"
  classListContains :: "elem \<Rightarrow> jsstring \<Rightarrow> bool"
  textContent :: "elem \<Rightarrow> jsstring option"
  listeners :: "(elem \<times> listener) list"
  focused :: focus
  selection :: "elem option option"
  notices :: "jsstring list"
  renames :: "(tfile \<times> jsstring) list"
  nextId :: nat

text \<open>The fields of the plugin object.\<close>

record plugin =
  inTitleMode :: bool
  vimModeClass :: jsstring
  editedTitle :: jsstring
  titleKeyHandler :: "closure option"
  titleInputHandler :: "closure option"
  currentTitleEl :: "elem option"

definition initial_plugin :: plugin where
  "initial_plugin = \<lparr>inTitleMode = False, vimModeClass = [], editedTitle = [],
     titleKeyHandler = None, titleInputHandler = None, currentTitleEl = None\<rparr>"

subsection \<open>Host operations the plugin calls\<close>

definition preventDefault :: "event \<Rightarrow> event" where
  "preventDefault e = e\<lparr>defaultPrevented := True\<rparr>"

definition stopPropagation :: "event \<Rightarrow> event" where
  "stopPropagation e = e\<lparr>propagationStopped := True\<rparr>"

text \<open>A listener equal in type, callback and capture flag to an attached one is not added again.\<close>

definition addEventListener :: "elem \<Rightarrow> evtype \<Rightarrow> closure \<Rightarrow> bool \<Rightarrow> world \<Rightarrow> world" where
  "addEventListener el ty h cap w =
     (if List.member (listeners w) (el, Listener ty h cap) then w
      else w\<lparr>listeners := listeners w @ [(el, Listener ty h cap)]\<rparr>)"

definition removeEventListener :: "elem \<Rightarrow> evtype \<Rightarrow> closure \<Rightarrow> bool \<Rightarrow> world \<Rightarrow> world" where
  "removeEventListener el ty h cap w =
     w\<lparr>listeners := removeAll (el, Listener ty h cap) (listeners w)\<rparr>"

definition Notice :: "jsstring \<Rightarrow> world \<Rightarrow> world" where
  "Notice msg w = w\<lparr>notices := notices w @ [msg]\<rparr>"

definition renameFile :: "tfile \<Rightarrow> jsstring \<Rightarrow> world \<Rightarrow> world" where
  "renameFile f newPath w = w\<lparr>renames := renames w @ [(f, newPath)]\<rparr>"

text \<open>\<^verbatim>\<open>el.textContent?.trim() || ''\<close>\<close>

definition trimmedText :: "world \<Rightarrow> elem \<Rightarrow> jsstring" where
  "trimmedText w el = (case textContent w el of None \<Rightarrow> [] | Some t \<Rightarrow> trim t)"

subsection \<open>The methods of the plugin\<close>

text \<open>The handler of \<^verbatim>\<open>vim-mode-change\<close>: \<^verbatim>\<open>customEvt.detail?.mode || ''\<close>.\<close>

definition vimModeHandler :: "jsstring option \<Rightarrow> plugin \<Rightarrow> plugin" where
  "vimModeHandler mode p = p\<lparr>vimModeClass := (case mode of None \<Rightarrow> [] | Some m \<Rightarrow> m)\<rparr>"

definition cleanupTitleHandlers :: "plugin \<Rightarrow> world \<Rightarrow> plugin \<times> world" where
  "cleanupTitleHandlers p w =
     (let w1 = (case (currentTitleEl p, titleKeyHandler p) of
                  (Some el, Some h) \<Rightarrow> removeEventListener el EvKeydown h True w
                | _ \<Rightarrow> w);
          w2 = (case (currentTitleEl p, titleInputHandler p) of
                  (Some el, Some h) \<Rightarrow> removeEventListener el EvInput h False w1
                | _ \<Rightarrow> w1)
      in (p\<lparr>titleKeyHandler := None, titleInputHandler := None,
             currentTitleEl := None, inTitleMode := False\<rparr>, w2))"

definition returnToEditor :: "plugin \<Rightarrow> world \<Rightarrow> plugin \<times> world" where
  "returnToEditor p w =
     (case activeView w of
        None \<Rightarrow> (p, w)
      | Some v \<Rightarrow>
          (p\<lparr>inTitleMode := False\<rparr>,
           w\<lparr>focused := EditorFocus (containerEl v),
             activeView := Some (v\<lparr>cursor := \<lparr>line = 0, ch = 0\<rparr>\<rparr>)\<rparr>))"

text \<open>
  \<^verbatim>\<open>saveTitleValue\<close> is an async function called without \<^verbatim>\<open>await\<close>: it runs up to the
  call of \<^verbatim>\<open>renameFile\<close> before its caller goes on. \<open>saveTitleValue\<close> is that part;
  \<open>saveTitleValue_settled\<close> is the rest, run when the rename has settled, with the text of
  the error when it failed.
\<close>

definition saveTitleValue :: "jsstring \<Rightarrow> world \<Rightarrow> world" where
  "saveTitleValue newTitle w =
     (case activeView w of
        None \<Rightarrow> w
      | Some v \<Rightarrow>
          (case viewFile v of
             None \<Rightarrow> w
           | Some f \<Rightarrow>
               if newTitle = [] then Notice (js ''Title cannot be empty'') w
               else if newTitle = basename f then w
               else
                 (let folder = (case parent f of None \<Rightarrow> [] | Some path \<Rightarrow> path);
                      newPath = (if folder \<noteq> [] then folder @ js ''/'' @ newTitle @ js ''.md''
                                 else newTitle @ js ''.md'')
                  in renameFile f newPath w)))"

definition saveTitleValue_settled :: "jsstring \<Rightarrow> jsstring option \<Rightarrow> world \<Rightarrow> world" where
  "saveTitleValue_settled newTitle failure w =
     (case failure of
        None \<Rightarrow> Notice (js ''Renamed to: '' @ newTitle) w
      | Some err \<Rightarrow> Notice (js ''Failed to rename: '' @ err) w)"

text \<open>The bodies of the two arrow functions of \<^verbatim>\<open>focusTitle\<close>.\<close>

definition titleInputHandler_call :: "elem \<Rightarrow> plugin \<Rightarrow> world \<Rightarrow> plugin" where
  "titleInputHandler_call titleEl p w = p\<lparr>editedTitle := trimmedText w titleEl\<rparr>"

definition titleKeyHandler_call :: "event \<Rightarrow> plugin \<Rightarrow> world \<Rightarrow> event \<times> plugin \<times> world" where
  "titleKeyHandler_call evt p w =
     (if key evt = js ''Escape'' \<or> key evt = js ''Enter'' then
        (let evt' = stopPropagation (preventDefault evt);
             w1 = saveTitleValue (editedTitle p) w;
             (p2, w2) = cleanupTitleHandlers p w1;
             (p3, w3) = returnToEditor p2 w2
         in (evt', p3, w3))
      else (evt, p, w))"

definition focusTitle :: "plugin \<Rightarrow> world \<Rightarrow> plugin \<times> world" where
  "focusTitle p w =
     (case activeView w of
        None \<Rightarrow> (p, w)
      | Some v \<Rightarrow>
          (case querySelector w (containerEl v) (js ''.inline-title'') of
             None \<Rightarrow>
               (p, Notice (js ''Inline title not found. Enable it in Settings > Editor > Show inline title'') w)
           | Some titleEl \<Rightarrow>
               (let (p1, w1) = cleanupTitleHandlers p w;
                    p2 = p1\<lparr>currentTitleEl := Some titleEl,
                            editedTitle := trimmedText w1 titleEl,
                            inTitleMode := True\<rparr>;
                    ih = TitleInputHandler (nextId w1) titleEl;
                    kh = TitleKeyHandler (Suc (nextId w1));
                    p3 = p2\<lparr>titleInputHandler := Some ih, titleKeyHandler := Some kh\<rparr>;
                    w2 = w1\<lparr>nextId := Suc (Suc (nextId w1))\<rparr>;
                    w3 = addEventListener titleEl EvInput ih False w2;
                    w4 = addEventListener titleEl EvKeydown kh True w3;
                    w5 = w4\<lparr>focused := ElemFocus titleEl\<rparr>;
                    w6 = w5\<lparr>selection := (case selection w5 of None \<Rightarrow> None
                                              | Some _ \<Rightarrow> Some (Some titleEl))\<rparr>
                in (p3, w6))))"

definition handleEditorKeydown :: "event \<Rightarrow> plugin \<Rightarrow> world \<Rightarrow> event \<times> plugin \<times> world" where
  "handleEditorKeydown evt p w =
     (if key evt \<noteq> js ''k'' then (evt, p, w)
      else
        (case closest w (target evt) (js ''.cm-editor'') of
           None \<Rightarrow> (evt, p, w)
         | Some editorEl \<Rightarrow>
             (let hasFatCursor = (querySelector w editorEl (js ''.cm-fat-cursor'') \<noteq> None);
                  hasVimCursor = (querySelector w editorEl (js ''.cm-vimCursorLayer'') \<noteq> None);
                  isVimNormal = (hasFatCursor \<or> hasVimCursor \<or> vimModeClass p = js ''normal'')
              in if \<not> isVimNormal then (evt, p, w)
                 else
                   (case activeView w of
                      None \<Rightarrow> (evt, p, w)
                    | Some v \<Rightarrow>
                        if line (cursor v) = 0
                        then (let evt' = stopPropagation (preventDefault evt);
                                  (p', w') = focusTitle p w
                              in (evt', p', w'))
                        else (evt, p, w)))))"

subsection \<open>The revision of \<^verbatim>\<open>part_000\<close>\<close>

text \<open>
  The second revision in the repository keeps no session: \<^verbatim>\<open>focusTitle\<close> attaches nothing,
  a keydown listener on the document (\<^verbatim>\<open>handleTitleKeydown\<close>) handles the keys pressed in the
  title, and \<^verbatim>\<open>saveTitle\<close> reads and trims the text of the title element itself. Its
  \<^verbatim>\<open>returnToEditor\<close> is the one above; of the plugin's fields it has the first two.
\<close>

definition focusTitle_part000 :: "plugin \<Rightarrow> world \<Rightarrow> plugin \<times> world" where
  "focusTitle_part000 p w =
     (case activeView w of
        None \<Rightarrow> (p, w)
      | Some v \<Rightarrow>
          (case querySelector w (containerEl v) (js ''.inline-title'') of
             None \<Rightarrow>
               (p, Notice (js ''Inline title not found. Enable it in Settings > Editor > Show inline title'') w)
           | Some titleEl \<Rightarrow>
               (let w1 = w\<lparr>focused := ElemFocus titleEl\<rparr>;
                    w2 = w1\<lparr>selection := (case selection w1 of None \<Rightarrow> None
                                              | Some _ \<Rightarrow> Some (Some titleEl))\<rparr>
                in (p\<lparr>inTitleMode := True\<rparr>, w2))))"

definition handleEditorKeydown_part000 :: "event \<Rightarrow> plugin \<Rightarrow> world \<Rightarrow> event \<times> plugin \<times> world" where
  "handleEditorKeydown_part000 evt p w =
     (if key evt \<noteq> js ''k'' then (evt, p, w)
      else
        (case closest w (target evt) (js ''.cm-editor'') of
           None \<Rightarrow> (evt, p, w)
         | Some editorEl \<Rightarrow>
             (let hasFatCursor = (querySelector w editorEl (js ''.cm-fat-cursor'') \<noteq> None);
                  hasVimCursor = (querySelector w editorEl (js ''.cm-vimCursorLayer'') \<noteq> None);
                  isVimNormal = (hasFatCursor \<or> hasVimCursor \<or> vimModeClass p = js ''normal'')
              in if \<not> isVimNormal then (evt, p, w)
                 else
                   (case activeView w of
                      None \<Rightarrow> (evt, p, w)
                    | Some v \<Rightarrow>
                        if line (cursor v) = 0
                        then (let evt' = stopPropagation (preventDefault evt);
                                  (p', w') = focusTitle_part000 p w
                              in (evt', p', w'))
                        else (evt, p, w)))))"

text \<open>The part of \<^verbatim>\<open>saveTitle\<close> that runs before its \<^verbatim>\<open>await\<close>.\<close>

definition saveTitle :: "elem \<Rightarrow> world \<Rightarrow> world" where
  "saveTitle titleEl w =
     (case activeView w of
        None \<Rightarrow> w
      | Some v \<Rightarrow>
          (case viewFile v of
             None \<Rightarrow> w
           | Some f \<Rightarrow>
               (case map_option trim (textContent w titleEl) of
                  None \<Rightarrow> Notice (js ''Title cannot be empty'') w
                | Some newTitle \<Rightarrow>
                    if newTitle = [] then Notice (js ''Title cannot be empty'') w
                    else if newTitle = basename f then w
                    else
                      (let folder = (case parent f of None \<Rightarrow> [] | Some path \<Rightarrow> path);
                           newPath = (if folder \<noteq> [] then folder @ js ''/'' @ newTitle @ js ''.md''
                                      else newTitle @ js ''.md'')
                       in renameFile f newPath w))))"

definition handleTitleKeydown :: "event \<Rightarrow> plugin \<Rightarrow> world \<Rightarrow> event \<times> plugin \<times> world" where
  "handleTitleKeydown evt p w =
     (if \<not> classListContains w (target evt) (js ''inline-title'') then (evt, p, w)
      else if key evt = js ''j'' \<or> key evt = js ''Escape'' then
        (let evt' = stopPropagation (preventDefault evt);
             (p', w') = returnToEditor p w
         in (evt', p', w'))
      else if key evt = js ''Enter'' then
        (let evt' = stopPropagation (preventDefault evt);
             w1 = saveTitle (target evt) w;
             (p', w') = returnToEditor p w1
         in (evt', p', w'))
      else (evt, p, w))"

subsection \<open>The host's event loop\<close>

text \<open>
  The plugin of \<^verbatim>\<open>src/main.ts\<close> runs only when the host calls one of its entry points: the
  keydown listener that \<^verbatim>\<open>onload\<close> registers on the document for the capture phase, the
  listeners attached to an element, the command, the handler of mode changes, and the rest
  of \<^verbatim>\<open>saveTitleValue\<close> once a rename has settled.
\<close>

fun invoke :: "closure \<Rightarrow> event \<Rightarrow> plugin \<Rightarrow> world \<Rightarrow> event \<times> plugin \<times> world" where
  "invoke (TitleInputHandler i titleEl) evt p w = (evt, titleInputHandler_call titleEl p w, w)"
| "invoke (TitleKeyHandler k) evt p w = titleKeyHandler_call evt p w"

text \<open>
  The listeners found on the target when the event arrives run in order; one that an
  earlier listener has removed is skipped.
\<close>

fun runListeners :: "(elem \<times> listener) list \<Rightarrow> evtype \<Rightarrow> event \<Rightarrow> plugin \<Rightarrow> world
    \<Rightarrow> event \<times> plugin \<times> world" where
  "runListeners [] ty evt p w = (evt, p, w)"
| "runListeners ((el, Listener ty' h cap) # ls) ty evt p w =
     (if el = target evt \<and> ty' = ty \<and> List.member (listeners w) (el, Listener ty' h cap)
      then (let (evt1, p1, w1) = invoke h evt p w in runListeners ls ty evt1 p1 w1)
      else runListeners ls ty evt p w)"

text \<open>
  A keydown event reaches the document's capture listener first and the target's
  listeners afterwards, unless its propagation was stopped on the way.
\<close>

definition dispatchKeydown :: "event \<Rightarrow> plugin \<Rightarrow> world \<Rightarrow> event \<times> plugin \<times> world" where
  "dispatchKeydown evt p w =
     (let (evt1, p1, w1) = handleEditorKeydown evt p w
      in if propagationStopped evt1 then (evt1, p1, w1)
         else runListeners (listeners w1) EvKeydown evt1 p1 w1)"

definition dispatchInput :: "elem \<Rightarrow> plugin \<Rightarrow> world \<Rightarrow> plugin \<times> world" where
  "dispatchInput el p w =
     snd (runListeners (listeners w) EvInput
            \<lparr>key = [], target = el, defaultPrevented = False, propagationStopped = False\<rparr> p w)"

text \<open>
  Whatever else happens (the user types or moves the cursor, the active view changes, the
  DOM is rebuilt) changes the world but neither the attached listeners nor the records of
  what the plugin did.
\<close>

definition external :: "(world \<Rightarrow> world) \<Rightarrow> world \<Rightarrow> world" where
  "external f w = (f w)\<lparr>listeners := listeners w, notices := notices w,
                         renames := renames w, nextId := nextId w\<rparr>"

datatype action =
    Keydown event
  | InputAt elem
  | Command
  | VimModeChange "jsstring option"
  | RenameSettled jsstring "jsstring option"
  | External "world \<Rightarrow> world"

fun step :: "action \<Rightarrow> plugin \<times> world \<Rightarrow> plugin \<times> world" where
  "step (Keydown evt) (p, w) = snd (dispatchKeydown evt p w)"
| "step (InputAt el) (p, w) = dispatchInput el p w"
| "step Command (p, w) = focusTitle p w"
| "step (VimModeChange mode) (p, w) = (vimModeHandler mode p, w)"
| "step (RenameSettled newTitle failure) (p, w) = (p, saveTitleValue_settled newTitle failure w)"
| "step (External f) (p, w) = (p, external f w)"

fun run :: "action list \<Rightarrow> plugin \<times> world \<Rightarrow> plugin \<times> world" where
  "run [] s = s"
| "run (a # as) s = run as (step a s)"

text \<open>The state after \<^verbatim>\<open>onload\<close>: no session, nothing attached.\<close>

definition idle :: "world \<Rightarrow> plugin \<times> world" where
  "idle w = (initial_plugin, w\<lparr>listeners := []\<rparr>)"

text \<open>
  A sequence of calls of \<^verbatim>\<open>focusTitle\<close>, the world changing before each; \<open>targeted\<close> is
  the title element a call finds, and \<open>recent_target\<close> the last one found along the
  sequence (\<open>r\<close> when there is none).
\<close>

definition targeted :: "world \<Rightarrow> elem option" where
  "targeted w =
     (case activeView w of
        None \<Rightarrow> None
      | Some v \<Rightarrow> querySelector w (containerEl v) (js ''.inline-title''))"

fun begin_seq :: "(world \<Rightarrow> world) list \<Rightarrow> plugin \<times> world \<Rightarrow> plugin \<times> world" where
  "begin_seq [] s = s"
| "begin_seq (f # fs) (p, w) = begin_seq fs (focusTitle p (external f w))"

fun recent_target :: "(world \<Rightarrow> world) list \<Rightarrow> plugin \<times> world \<Rightarrow> elem option \<Rightarrow> elem option" where
  "recent_target [] s r = r"
| "recent_target (f # fs) (p, w) r =
     recent_target fs (focusTitle p (external f w))
       (case targeted (external f w) of None \<Rightarrow> r | Some el \<Rightarrow> Some el)"

text \<open>
  The state of the listeners that goes with the plugin's fields: nothing attached when no
  title element is recorded; otherwise the recorded input listener and the recorded
  capturing keydown listener on the recorded element, and nothing else.
\<close>

fun isInputHandlerOf :: "elem \<Rightarrow> closure \<Rightarrow> bool" where
  "isInputHandlerOf el (TitleInputHandler i titleEl) = (titleEl = el)"
| "isInputHandlerOf el (TitleKeyHandler k) = False"

fun isKeyHandler :: "closure \<Rightarrow> bool" where
  "isKeyHandler (TitleKeyHandler k) = True"
| "isKeyHandler (TitleInputHandler i titleEl) = False"

definition session_ok :: "plugin \<Rightarrow> world \<Rightarrow> bool" where
  "session_ok p w =
     (case currentTitleEl p of
        None \<Rightarrow> titleKeyHandler p = None \<and> titleInputHandler p = None \<and> \<not> inTitleMode p
                 \<and> listeners w = []
      | Some el \<Rightarrow>
          (case (titleInputHandler p, titleKeyHandler p) of
             (Some ih, Some kh) \<Rightarrow>
               isInputHandlerOf el ih \<and> isKeyHandler kh \<and> inTitleMode p
               \<and> listeners w = [(el, Listener EvInput ih False), (el, Listener EvKeydown kh True)]
           | _ \<Rightarrow> False))"

text \<open>The live value carries no white space at either end.\<close>

definition live_trimmed :: "plugin \<Rightarrow> bool" where
  "live_trimmed p \<longleftrightarrow> trim (editedTitle p) = editedTitle p"

subsection \<open>A note and its view, for concrete runs\<close>

text \<open>
  The note \<^verbatim>\<open>notes/Old.md\<close> is open: element 1 is the view's container, 2 its
  \<^verbatim>\<open>.cm-editor\<close> (with a fat cursor, element 5), 3 its inline title showing \<^verbatim>\<open>" New "\<close>,
  4 the editor's content, where the keys pressed in the body arrive.
\<close>

definition example_file :: tfile where
  "example_file = \<lparr>basename = js ''Old'', parent = Some (js ''notes'')\<rparr>"

definition example_view :: view where
  "example_view = \<lparr>containerEl = 1, viewFile = Some example_file, cursor = \<lparr>line = 0, ch = 3\<rparr>\<rparr>"

definition example_world :: world where
  "example_world =
     \<lparr>activeView = Some example_view,
      closest = (\<lambda>e s. if (e = 2 \<or> e = 4) \<and> s = js ''.cm-editor'' then Some 2 else None),
      querySelector = (\<lambda>e s. if e = 1 \<and> s = js ''.inline-title'' then Some 3
                             else if e = 2 \<and> s = js ''.cm-fat-cursor'' then Some 5 else None),
      classListContains = (\<lambda>e s. e = 3 \<and> s = js ''inline-title''),
      textContent = (\<lambda>e. if e = 3 then Some (js '' New '') else None),
      listeners = [], focused = EditorFocus 1, selection = Some None,
      notices = [], renames = [], nextId = 0\<rparr>"

text \<open>
  The target path in the words of the specification: the parent folder's path, a slash,
  the title and the extension when that path is not empty; the title and the extension
  when it is empty or there is no parent.
\<close>

definition claimedPath :: "tfile \<Rightarrow> jsstring \<Rightarrow> jsstring" where
  "claimedPath f title =
     (case parent f of
        None \<Rightarrow> title @ js ''.md''
      | Some folder \<Rightarrow>
          if folder = [] then title @ js ''.md'' else folder @ js ''/'' @ title @ js ''.md'')"

text \<open>The same view with the inline title switched off.\<close>

definition untitled_world :: world where
  "untitled_world = example_world\<lparr>querySelector := (\<lambda>e s. None)\<rparr>"

text \<open>The same view without a file behind it, and with a file whose basename is empty.\<close>

definition fileless_world :: world where
  "fileless_world = example_world\<lparr>activeView := Some (example_view\<lparr>viewFile := None\<rparr>)\<rparr>"

definition nameless_file :: tfile where
  "nameless_file = \<lparr>basename = [], parent = Some (js ''notes'')\<rparr>"

definition nameless_world :: world where
  "nameless_world = example_world\<lparr>activeView := Some (example_view\<lparr>viewFile := Some nameless_file\<rparr>)\<rparr>"

definition keydown :: "string \<Rightarrow> elem \<Rightarrow> event" where
  "keydown k el = \<lparr>key = js k, target = el, defaultPrevented = False, propagationStopped = False\<rparr>"

section \<open>Properties\<close>

subsection \<open>Trimming\<close>

lemma trim_ends:
  assumes "trim s \<noteq> []"
  shows "\<not> isWhiteSpace (hd (trim s))" and "\<not> isWhiteSpace (last (trim s))"
proof -
  define t where "t = dropWhile isWhiteSpace s"
  define u where "u = dropWhile isWhiteSpace (rev t)"
  have tr: "trim s = rev u" by (simp add: trim_def t_def u_def)
  with assms have u: "u \<noteq> []" by simp
  then have hu: "\<not> isWhiteSpace (hd u)" unfolding u_def by (rule hd_dropWhile)
  from u have "hd u \<in> set u" by simp
  then have mem: "hd u \<in> set (rev t)" unfolding u_def by (rule set_dropWhileD)
  then have t: "t \<noteq> []" by auto
  have "last u = last (rev t)" unfolding u_def using mem hu by (rule dropWhile_last)
  also have "\<dots> = hd t" using t by (simp add: last_rev)
  finally have lu: "last u = hd t" .
  have "\<not> isWhiteSpace (hd t)" using t unfolding t_def by (rule hd_dropWhile)
  with lu u show "\<not> isWhiteSpace (hd (trim s))" by (simp add: tr hd_rev)
  from hu u show "\<not> isWhiteSpace (last (trim s))" by (simp add: tr last_rev)
qed

lemma trim_idem: "trim (trim s) = trim s"
proof (cases "trim s = []")
  case True
  then have "trim (trim s) = trim []" by simp
  also have "\<dots> = []" by (simp add: trim_def)
  finally show ?thesis using True by simp
next
  case False
  then have a: "dropWhile isWhiteSpace (trim s) = trim s"
    by (simp add: dropWhile_eq_self_iff trim_ends(1))
  from False have b: "dropWhile isWhiteSpace (rev (trim s)) = rev (trim s)"
    by (simp add: dropWhile_eq_self_iff trim_ends(2) hd_rev)
  have "trim (trim s) = rev (dropWhile isWhiteSpace (rev (dropWhile isWhiteSpace (trim s))))"
    by (simp add: trim_def)
  also have "\<dots> = trim s" by (simp only: a b rev_rev_ident)
  finally show ?thesis .
qed

lemma trim_empty_iff: "trim s = [] \<longleftrightarrow> (\<forall>c \<in> set s. isWhiteSpace c)"
proof -
  define t where "t = dropWhile isWhiteSpace s"
  have "trim s = [] \<longleftrightarrow> (\<forall>c \<in> set t. isWhiteSpace c)"
    by (simp add: trim_def t_def dropWhile_eq_Nil_conv)
  also have "\<dots> \<longleftrightarrow> t = []"
  proof
    assume all: "\<forall>c \<in> set t. isWhiteSpace c"
    show "t = []"
    proof (rule ccontr)
      assume ne: "t \<noteq> []"
      then have "\<not> isWhiteSpace (hd t)" unfolding t_def by (rule hd_dropWhile)
      moreover from ne have "hd t \<in> set t" by simp
      ultimately show False using all by blast
    qed
  qed simp
  also have "\<dots> \<longleftrightarrow> (\<forall>c \<in> set s. isWhiteSpace c)"
    by (simp add: t_def dropWhile_eq_Nil_conv)
  finally show ?thesis .
qed

lemma trim_self_iff: "trim s = s \<longleftrightarrow> s = [] \<or> (\<not> isWhiteSpace (hd s) \<and> \<not> isWhiteSpace (last s))"
proof
  assume "trim s = s"
  then show "s = [] \<or> (\<not> isWhiteSpace (hd s) \<and> \<not> isWhiteSpace (last s))"
    using trim_ends[of s] by auto
next
  assume h: "s = [] \<or> (\<not> isWhiteSpace (hd s) \<and> \<not> isWhiteSpace (last s))"
  show "trim s = s"
  proof (cases "s = []")
    case True then show ?thesis by (simp add: trim_def)
  next
    case False
    with h have a: "dropWhile isWhiteSpace s = s" and b: "dropWhile isWhiteSpace (rev s) = rev s"
      by (simp_all add: dropWhile_eq_self_iff hd_rev)
    show ?thesis by (simp add: trim_def a b)
  qed
qed

subsection \<open>The listeners that go with the plugin's fields\<close>

lemma cleanup_fields:
  "fst (cleanupTitleHandlers p w) = p\<lparr>titleKeyHandler := None, titleInputHandler := None, currentTitleEl := None, inTitleMode := False\<rparr>"
  by (simp add: cleanupTitleHandlers_def Let_def)

lemma session_ok_cleanup:
  assumes "session_ok p w"
  shows "listeners (snd (cleanupTitleHandlers p w)) = []"
  using assms
  by (auto simp: session_ok_def cleanupTitleHandlers_def removeEventListener_def Let_def split: option.splits)

lemma cleanup_snd:
  "snd (cleanupTitleHandlers p w) = w\<lparr>listeners := listeners (snd (cleanupTitleHandlers p w))\<rparr>"
  by (simp add: cleanupTitleHandlers_def removeEventListener_def Let_def split: option.splits)

lemma cleanup_closed:
  assumes "session_ok p w"
  shows "cleanupTitleHandlers p w =
    (p\<lparr>titleKeyHandler := None, titleInputHandler := None, currentTitleEl := None, inTitleMode := False\<rparr>,
     w\<lparr>listeners := []\<rparr>)"
proof -
  have "snd (cleanupTitleHandlers p w) = w\<lparr>listeners := []\<rparr>"
    using cleanup_snd[of p w] session_ok_cleanup[OF assms] by simp
  then show ?thesis using cleanup_fields[of p w] by (simp add: prod_eq_iff)
qed

lemma focusTitle_opens:
  assumes ok: "session_ok p w"
    and v: "activeView w = Some v"
    and t: "querySelector w (containerEl v) (js ''.inline-title'') = Some el"
  shows "focusTitle p w =
    (p\<lparr>titleKeyHandler := Some (TitleKeyHandler (Suc (nextId w))),
       titleInputHandler := Some (TitleInputHandler (nextId w) el),
       currentTitleEl := Some el, inTitleMode := True, editedTitle := trimmedText w el\<rparr>,
     w\<lparr>listeners := [(el, Listener EvInput (TitleInputHandler (nextId w) el) False),
                      (el, Listener EvKeydown (TitleKeyHandler (Suc (nextId w))) True)],
       nextId := Suc (Suc (nextId w)),
       focused := ElemFocus el,
       selection := (case selection w of None \<Rightarrow> None | Some _ \<Rightarrow> Some (Some el))\<rparr>)"
  by (simp add: focusTitle_def v t cleanup_closed[OF ok] addEventListener_def trimmedText_def Let_def)

lemma session_ok_focusTitle:
  assumes "session_ok p w"
  shows "session_ok (fst (focusTitle p w)) (snd (focusTitle p w))"
proof (cases "activeView w")
  case None
  then show ?thesis using assms by (simp add: focusTitle_def)
next
  case (Some v)
  show ?thesis
  proof (cases "querySelector w (containerEl v) (js ''.inline-title'')")
    case None
    then show ?thesis using assms Some
      by (simp add: focusTitle_def Notice_def session_ok_def cong: option.case_cong)
  next
    case (Some el)
    show ?thesis
      by (simp add: focusTitle_opens[OF assms \<open>activeView w = Some v\<close> Some] session_ok_def)
  qed
qed

lemma saveTitleValue_listeners: "listeners (saveTitleValue t w) = listeners w"
  by (simp add: saveTitleValue_def Notice_def renameFile_def Let_def split: option.splits)

lemma session_ok_saveTitleValue: "session_ok p (saveTitleValue t w) = session_ok p w"
  by (simp add: session_ok_def saveTitleValue_listeners cong: option.case_cong)

lemma session_ok_titleKeyHandler:
  assumes "session_ok p w"
  shows "session_ok (fst (snd (titleKeyHandler_call evt p w))) (snd (snd (titleKeyHandler_call evt p w)))"
proof (cases "key evt = js ''Escape'' \<or> key evt = js ''Enter''")
  case False
  then show ?thesis using assms by (simp add: titleKeyHandler_call_def)
next
  case True
  have ok1: "session_ok p (saveTitleValue (editedTitle p) w)"
    using assms by (simp add: session_ok_saveTitleValue)
  show ?thesis using True
    by (simp add: titleKeyHandler_call_def cleanup_closed[OF ok1] returnToEditor_def session_ok_def
        Let_def split: option.splits)
qed

lemma session_ok_titleInputHandler:
  "session_ok (titleInputHandler_call el p w) w = session_ok p w"
  by (simp add: session_ok_def titleInputHandler_call_def cong: option.case_cong)

lemma session_ok_handleEditorKeydown:
  assumes "session_ok p w"
  shows "session_ok (fst (snd (handleEditorKeydown evt p w))) (snd (snd (handleEditorKeydown evt p w)))"
  using assms session_ok_focusTitle[OF assms]
  by (simp add: handleEditorKeydown_def Let_def split_beta split: option.splits)

lemma session_ok_invoke:
  assumes "session_ok p w"
  shows "session_ok (fst (snd (invoke h evt p w))) (snd (snd (invoke h evt p w)))"
  using assms by (cases h) (simp_all add: session_ok_titleInputHandler session_ok_titleKeyHandler)

lemma session_ok_runListeners:
  assumes "session_ok p w"
  shows "session_ok (fst (snd (runListeners ls ty evt p w))) (snd (snd (runListeners ls ty evt p w)))"
  using assms
proof (induction ls ty evt p w rule: runListeners.induct)
  case (1 ty evt p w)
  then show ?case by simp
next
  case (2 el ty' h cap ls ty evt p w)
  show ?case
  proof (cases "el = target evt \<and> ty' = ty \<and> List.member (listeners w) (el, Listener ty' h cap)")
    case True
    obtain evt1 p1 w1 where inv: "invoke h evt p w = (evt1, p1, w1)" by (cases "invoke h evt p w") auto
    have "session_ok p1 w1" using session_ok_invoke[OF "2.prems", of h evt] inv by simp
    then have "session_ok (fst (snd (runListeners ls ty evt1 p1 w1))) (snd (snd (runListeners ls ty evt1 p1 w1)))"
      using "2.IH"(1)[OF True inv[symmetric] refl] by simp
    moreover have "runListeners ((el, Listener ty' h cap) # ls) ty evt p w = runListeners ls ty evt1 p1 w1"
      using True inv by auto
    ultimately show ?thesis by simp
  next
    case False
    then have "runListeners ((el, Listener ty' h cap) # ls) ty evt p w = runListeners ls ty evt p w"
      by auto
    then show ?thesis using "2.IH"(2)[OF False "2.prems"] by simp
  qed
qed

lemma session_ok_external: "session_ok p (external f w) = session_ok p w"
  by (simp add: session_ok_def external_def cong: option.case_cong)

lemma session_ok_settled: "session_ok p (saveTitleValue_settled t r w) = session_ok p w"
  by (simp add: session_ok_def saveTitleValue_settled_def Notice_def cong: option.case_cong split: option.splits)

lemma session_ok_vimMode: "session_ok (vimModeHandler m p) w = session_ok p w"
  by (simp add: session_ok_def vimModeHandler_def cong: option.case_cong)

lemma session_ok_dispatchKeydown:
  assumes "session_ok p w"
  shows "session_ok (fst (snd (dispatchKeydown evt p w))) (snd (snd (dispatchKeydown evt p w)))"
proof -
  obtain evt1 p1 w1 where h: "handleEditorKeydown evt p w = (evt1, p1, w1)"
    by (cases "handleEditorKeydown evt p w") auto
  have ok1: "session_ok p1 w1" using session_ok_handleEditorKeydown[OF assms, of evt] h by simp
  show ?thesis using ok1 session_ok_runListeners[OF ok1]
    by (simp add: dispatchKeydown_def h)
qed

lemma session_ok_step:
  assumes "session_ok (fst s) (snd s)"
  shows "session_ok (fst (step a s)) (snd (step a s))"
proof (cases s)
  case (Pair p w)
  with assms have ok: "session_ok p w" by simp
  show ?thesis
  proof (cases a)
    case (Keydown evt)
    then show ?thesis using Pair session_ok_dispatchKeydown[OF ok] by simp
  next
    case (InputAt el)
    then show ?thesis using Pair session_ok_runListeners[OF ok] by (simp add: dispatchInput_def)
  next
    case Command
    then show ?thesis using Pair session_ok_focusTitle[OF ok] by simp
  next
    case (VimModeChange m)
    then show ?thesis using Pair ok by (simp add: session_ok_vimMode)
  next
    case (RenameSettled t r)
    then show ?thesis using Pair ok by (simp add: session_ok_settled)
  next
    case (External f)
    then show ?thesis using Pair ok by (simp add: session_ok_external)
  qed
qed

lemma session_ok_run:
  assumes "session_ok (fst s) (snd s)"
  shows "session_ok (fst (run as s)) (snd (run as s))"
  using assms by (induction as arbitrary: s) (simp_all add: session_ok_step)

lemma session_ok_idle: "session_ok (fst (idle w)) (snd (idle w))"
  by (simp add: idle_def initial_plugin_def session_ok_def)


lemma reachable_session_ok:
  "session_ok (fst (run acts (idle w0))) (snd (run acts (idle w0)))"
  by (rule session_ok_run[OF session_ok_idle])

subsection \<open>Silent returns\<close>

text \<open>
  C9. Called while no markdown view is active, \<^verbatim>\<open>focusTitle\<close> returns with the plugin and the
  world as they were: no notice, no session, nothing changed; with a view whose title
  element is missing it does show a notice. \<^verbatim>\<open>saveTitleValue\<close> returns the world as it was
  when there is no view, or a view without a file, for every value: the test for the empty
  title is never reached, so no notice is shown for the empty string either.
\<close>

theorem no_view_returns_silently:
  "(activeView w = None \<longrightarrow> focusTitle p w = (p, w)) \<and>
   (activeView w = Some v \<and> querySelector w (containerEl v) (js ''.inline-title'') = None \<longrightarrow>
      notices (snd (focusTitle p w)) \<noteq> notices w) \<and>
   (activeView w = None \<or> (\<exists>v'. activeView w = Some v' \<and> viewFile v' = None)
      \<longrightarrow> saveTitleValue newTitle w = w)"
  by (auto simp: focusTitle_def saveTitleValue_def Notice_def)

theorem no_view_returns_silently_witness:
  "focusTitle initial_plugin (example_world\<lparr>activeView := None\<rparr>)
     = (initial_plugin, example_world\<lparr>activeView := None\<rparr>)
   \<and> notices (snd (focusTitle initial_plugin untitled_world)) \<noteq> notices untitled_world
   \<and> saveTitleValue [] (example_world\<lparr>activeView := None\<rparr>) = example_world\<lparr>activeView := None\<rparr>
   \<and> saveTitleValue [] (example_world\<lparr>activeView := Some (example_view\<lparr>viewFile := None\<rparr>)\<rparr>)
     = example_world\<lparr>activeView := Some (example_view\<lparr>viewFile := None\<rparr>)\<rparr>
   \<and> notices (saveTitleValue [] (example_world\<lparr>activeView := Some (example_view\<lparr>viewFile := None\<rparr>)\<rparr>)) = []"
  using no_view_returns_silently[where w = "example_world\<lparr>activeView := None\<rparr>"
      and p = initial_plugin and newTitle = "[]"]
    no_view_returns_silently[where w = untitled_world and v = example_view
      and p = initial_plugin and newTitle = "[]"]
    no_view_returns_silently[where
      w = "example_world\<lparr>activeView := Some (example_view\<lparr>viewFile := None\<rparr>)\<rparr>"
      and p = initial_plugin and newTitle = "[]"]
  by (simp add: example_world_def untitled_world_def example_view_def)

subsection \<open>The interception filter\<close>

text \<open>
  C1. The keydown listener on the document calls \<^verbatim>\<open>focusTitle\<close> exactly when the key is
  \<^verbatim>\<open>k\<close>, the target has a \<^verbatim>\<open>.cm-editor\<close> ancestor (or is one), normal mode is detected (that
  editor contains a \<^verbatim>\<open>.cm-fat-cursor\<close>, or a \<^verbatim>\<open>.cm-vimCursorLayer\<close>, or the tracked mode is
  \<^verbatim>\<open>normal\<close>) and the cursor of the active view is on line 0. Then the event comes back with
  its default prevented and its propagation stopped, and the state is that of one call of
  \<^verbatim>\<open>focusTitle\<close>; otherwise event, plugin and world come back as they were. Both revisions
  have the same text, each calling its own \<^verbatim>\<open>focusTitle\<close>.
\<close>

theorem editor_keydown_gate:
  "handleEditorKeydown evt p w =
     (if key evt = js ''k''
         \<and> (\<exists>editorEl. closest w (target evt) (js ''.cm-editor'') = Some editorEl
               \<and> (querySelector w editorEl (js ''.cm-fat-cursor'') \<noteq> None
                  \<or> querySelector w editorEl (js ''.cm-vimCursorLayer'') \<noteq> None
                  \<or> vimModeClass p = js ''normal''))
         \<and> (\<exists>v. activeView w = Some v \<and> line (cursor v) = 0)
      then (evt\<lparr>defaultPrevented := True, propagationStopped := True\<rparr>, focusTitle p w)
      else (evt, p, w))
   \<and> handleEditorKeydown_part000 evt p w =
     (if key evt = js ''k''
         \<and> (\<exists>editorEl. closest w (target evt) (js ''.cm-editor'') = Some editorEl
               \<and> (querySelector w editorEl (js ''.cm-fat-cursor'') \<noteq> None
                  \<or> querySelector w editorEl (js ''.cm-vimCursorLayer'') \<noteq> None
                  \<or> vimModeClass p = js ''normal''))
         \<and> (\<exists>v. activeView w = Some v \<and> line (cursor v) = 0)
      then (evt\<lparr>defaultPrevented := True, propagationStopped := True\<rparr>, focusTitle_part000 p w)
      else (evt, p, w))"
  by (auto simp: handleEditorKeydown_def handleEditorKeydown_part000_def Let_def split_beta
      preventDefault_def stopPropagation_def split: option.splits)

theorem editor_keydown_gate_witness:
  "handleEditorKeydown (keydown ''k'' 4) initial_plugin example_world =
     ((keydown ''k'' 4)\<lparr>defaultPrevented := True, propagationStopped := True\<rparr>,
      focusTitle initial_plugin example_world)
   \<and> handleEditorKeydown (keydown ''k'' 4) initial_plugin
       (example_world\<lparr>activeView := Some (example_view\<lparr>cursor := \<lparr>line = 2, ch = 0\<rparr>\<rparr>)\<rparr>) =
     (keydown ''k'' 4, initial_plugin,
      example_world\<lparr>activeView := Some (example_view\<lparr>cursor := \<lparr>line = 2, ch = 0\<rparr>\<rparr>)\<rparr>)
   \<and> handleEditorKeydown (keydown ''k'' 3) initial_plugin example_world =
     (keydown ''k'' 3, initial_plugin, example_world)
   \<and> handleEditorKeydown (keydown ''j'' 4) initial_plugin example_world =
     (keydown ''j'' 4, initial_plugin, example_world)"
  using editor_keydown_gate[of "keydown ''k'' 4" initial_plugin example_world]
    editor_keydown_gate[of "keydown ''k'' 4" initial_plugin
       "example_world\<lparr>activeView := Some (example_view\<lparr>cursor := \<lparr>line = 2, ch = 0\<rparr>\<rparr>)\<rparr>"]
    editor_keydown_gate[of "keydown ''k'' 3" initial_plugin example_world]
    editor_keydown_gate[of "keydown ''j'' 4" initial_plugin example_world]
  by (simp add: keydown_def example_world_def example_view_def js_def)

subsection \<open>Beginning a session\<close>

text \<open>
  C7. With an active view whose container has no \<^verbatim>\<open>.inline-title\<close>, \<^verbatim>\<open>focusTitle\<close> shows the
  notice that the inline title was not found and returns: the plugin's fields are as they
  were (no session opens), and so are the attached listeners and the focus.
\<close>

theorem title_absent_aborts:
  "activeView w = Some v \<Longrightarrow>
   querySelector w (containerEl v) (js ''.inline-title'') = None \<Longrightarrow>
   focusTitle p w =
     (p, w\<lparr>notices := notices w @
           [js ''Inline title not found. Enable it in Settings > Editor > Show inline title'']\<rparr>)
   \<and> listeners (snd (focusTitle p w)) = listeners w
   \<and> focused (snd (focusTitle p w)) = focused w"
  by (simp add: focusTitle_def Notice_def)

theorem title_absent_aborts_witness:
  "focusTitle initial_plugin untitled_world =
     (initial_plugin, untitled_world\<lparr>notices :=
           [js ''Inline title not found. Enable it in Settings > Editor > Show inline title'']\<rparr>)
   \<and> listeners (snd (focusTitle initial_plugin untitled_world)) = []
   \<and> focused (snd (focusTitle initial_plugin untitled_world)) = EditorFocus 1"
  using title_absent_aborts[of untitled_world example_view initial_plugin]
  by (simp add: untitled_world_def example_world_def example_view_def)

subsection \<open>Tearing a session down\<close>

text \<open>
  C8. \<^verbatim>\<open>cleanupTitleHandlers\<close> is idempotent: a second call right after a first changes
  nothing, and after the first the recorded element and both recorded handlers are null
  and the session is marked closed. Called when no session is open it changes nothing at
  all. In every state the plugin can reach from its start, no listener is attached after
  it.
\<close>

theorem cleanup_idempotent:
  "(case cleanupTitleHandlers p w of
      (p1, w1) \<Rightarrow>
        cleanupTitleHandlers p1 w1 = (p1, w1)
        \<and> currentTitleEl p1 = None \<and> titleKeyHandler p1 = None \<and> titleInputHandler p1 = None
        \<and> \<not> inTitleMode p1)
   \<and> (currentTitleEl p = None \<and> titleKeyHandler p = None \<and> titleInputHandler p = None
        \<and> \<not> inTitleMode p \<longrightarrow> cleanupTitleHandlers p w = (p, w))
   \<and> (case run acts (idle w0) of
        (p0, w0') \<Rightarrow> listeners (snd (cleanupTitleHandlers p0 w0')) = [])"
proof (intro conjI)
  show "case cleanupTitleHandlers p w of
      (p1, w1) \<Rightarrow>
        cleanupTitleHandlers p1 w1 = (p1, w1)
        \<and> currentTitleEl p1 = None \<and> titleKeyHandler p1 = None \<and> titleInputHandler p1 = None
        \<and> \<not> inTitleMode p1"
    by (simp add: cleanupTitleHandlers_def Let_def split: option.splits)
  show "currentTitleEl p = None \<and> titleKeyHandler p = None \<and> titleInputHandler p = None
        \<and> \<not> inTitleMode p \<longrightarrow> cleanupTitleHandlers p w = (p, w)"
    by (simp add: cleanupTitleHandlers_def Let_def)
  show "case run acts (idle w0) of
        (p0, w0') \<Rightarrow> listeners (snd (cleanupTitleHandlers p0 w0')) = []"
    using reachable_session_ok[of acts w0] session_ok_cleanup
    by (simp add: split_beta)
qed

theorem cleanup_idempotent_witness:
  "cleanupTitleHandlers initial_plugin example_world = (initial_plugin, example_world)
   \<and> (case focusTitle initial_plugin example_world of
        (p, w) \<Rightarrow> listeners w \<noteq> [] \<and> listeners (snd (cleanupTitleHandlers p w)) = [])"
  using cleanup_idempotent[of initial_plugin example_world "[Command]" example_world]
  by (simp add: initial_plugin_def idle_def example_world_def example_view_def focusTitle_def
      cleanupTitleHandlers_def addEventListener_def removeEventListener_def trimmedText_def Let_def)

subsection \<open>What a call leaves alone\<close>

lemma cleanup_keeps:
  "notices (snd (cleanupTitleHandlers p w)) = notices w"
  "renames (snd (cleanupTitleHandlers p w)) = renames w"
  "activeView (snd (cleanupTitleHandlers p w)) = activeView w"
  "textContent (snd (cleanupTitleHandlers p w)) = textContent w"
  "editedTitle (fst (cleanupTitleHandlers p w)) = editedTitle p"
  by (simp_all add: cleanupTitleHandlers_def removeEventListener_def Let_def split: option.splits)

lemma returnToEditor_keeps:
  "notices (snd (returnToEditor p w)) = notices w"
  "renames (snd (returnToEditor p w)) = renames w"
  "editedTitle (fst (returnToEditor p w)) = editedTitle p"
  by (simp_all add: returnToEditor_def split: option.splits)

lemma titleKeyHandler_terminal:
  assumes "key evt = js ''Escape'' \<or> key evt = js ''Enter''"
  shows "titleKeyHandler_call evt p w =
    (evt\<lparr>defaultPrevented := True, propagationStopped := True\<rparr>,
     returnToEditor (fst (cleanupTitleHandlers p (saveTitleValue (editedTitle p) w)))
                    (snd (cleanupTitleHandlers p (saveTitleValue (editedTitle p) w))))"
  using assms
  by (auto simp: titleKeyHandler_call_def Let_def split_beta preventDefault_def stopPropagation_def)

lemma titleKeyHandler_commits:
  assumes "key evt = js ''Escape'' \<or> key evt = js ''Enter''"
  shows "notices (snd (snd (titleKeyHandler_call evt p w))) = notices (saveTitleValue (editedTitle p) w)"
    and "renames (snd (snd (titleKeyHandler_call evt p w))) = renames (saveTitleValue (editedTitle p) w)"
  by (simp_all add: titleKeyHandler_terminal[OF assms] returnToEditor_keeps cleanup_keeps)

lemma saveTitleValue_cases:
  assumes "activeView w = Some v" "viewFile v = Some f"
  shows "saveTitleValue newTitle w =
    (if newTitle = [] then w\<lparr>notices := notices w @ [js ''Title cannot be empty'']\<rparr>
     else if newTitle = basename f then w
     else w\<lparr>renames := renames w @ [(f, claimedPath f newTitle)]\<rparr>)"
  using assms
  by (simp add: saveTitleValue_def Notice_def renameFile_def claimedPath_def Let_def split: option.splits)

lemma saveTitle_is_saveTitleValue:
  "saveTitle el w = saveTitleValue (trimmedText w el) w"
  by (simp add: saveTitle_def saveTitleValue_def trimmedText_def Let_def split: option.splits)

subsection \<open>One session at a time\<close>

lemma focusTitle_current:
  assumes "session_ok p w"
  shows "currentTitleEl (fst (focusTitle p w))
           = (case targeted w of None \<Rightarrow> currentTitleEl p | Some el \<Rightarrow> Some el)"
proof (cases "activeView w")
  case None
  then show ?thesis by (simp add: focusTitle_def targeted_def)
next
  case (Some v)
  show ?thesis
  proof (cases "querySelector w (containerEl v) (js ''.inline-title'')")
    case None
    then show ?thesis using Some by (simp add: focusTitle_def targeted_def)
  next
    case (Some el)
    show ?thesis
      using \<open>activeView w = Some v\<close> Some
      by (simp add: focusTitle_opens[OF assms \<open>activeView w = Some v\<close> Some] targeted_def)
  qed
qed

lemma begin_seq_session:
  assumes "session_ok (fst s) (snd s)"
  shows "session_ok (fst (begin_seq fs s)) (snd (begin_seq fs s))
         \<and> currentTitleEl (fst (begin_seq fs s)) = recent_target fs s (currentTitleEl (fst s))"
  using assms
proof (induction fs arbitrary: s)
  case Nil
  then show ?case by simp
next
  case (Cons f fs)
  obtain p w where s: "s = (p, w)" by (cases s)
  have ok: "session_ok p (external f w)" using Cons.prems s by (simp add: session_ok_external)
  have ok': "session_ok (fst (focusTitle p (external f w))) (snd (focusTitle p (external f w)))"
    by (rule session_ok_focusTitle[OF ok])
  show ?case
    using Cons.IH[OF ok'] by (simp add: s focusTitle_current[OF ok])
qed

lemma session_ok_shape:
  assumes "session_ok p w"
  shows "case currentTitleEl p of
           None \<Rightarrow> \<not> inTitleMode p \<and> titleInputHandler p = None \<and> titleKeyHandler p = None
                    \<and> listeners w = []
         | Some el \<Rightarrow> inTitleMode p
             \<and> (\<exists>ih kh. titleInputHandler p = Some ih \<and> titleKeyHandler p = Some kh
                  \<and> listeners w = [(el, Listener EvInput ih False), (el, Listener EvKeydown kh True)])"
  using assms by (auto simp: session_ok_def split: option.splits)

text \<open>
  C4. Take any state the plugin can reach from its start and any sequence of calls of
  \<^verbatim>\<open>focusTitle\<close> from there, the world changing freely in between. Afterwards the recorded
  title element is the one found by the last call that found one (the one recorded before,
  if no call found any). If none is recorded, no session is open and no listener is
  attached. If one is recorded, the session is open and the attached listeners are
  exactly two, both on that element: the recorded input handler, and the recorded keydown
  handler for the capture phase. Listeners of earlier sessions are gone.
\<close>

theorem one_session_after_begins:
  "(case begin_seq fs (run acts (idle w0)) of
      (p, w) \<Rightarrow>
        currentTitleEl p = recent_target fs (run acts (idle w0)) (currentTitleEl (fst (run acts (idle w0))))
        \<and> (case currentTitleEl p of
             None \<Rightarrow> \<not> inTitleMode p \<and> titleInputHandler p = None \<and> titleKeyHandler p = None
                      \<and> listeners w = []
           | Some el \<Rightarrow> inTitleMode p
               \<and> (\<exists>ih kh. titleInputHandler p = Some ih \<and> titleKeyHandler p = Some kh
                    \<and> listeners w = [(el, Listener EvInput ih False), (el, Listener EvKeydown kh True)])))"
proof -
  define s where "s = run acts (idle w0)"
  have ok: "session_ok (fst s) (snd s)" unfolding s_def by (rule reachable_session_ok)
  obtain p w where pw: "begin_seq fs s = (p, w)" by (cases "begin_seq fs s")
  from begin_seq_session[OF ok, of fs] pw
  have a: "session_ok p w" and b: "currentTitleEl p = recent_target fs s (currentTitleEl (fst s))"
    by simp_all
  show ?thesis
    using session_ok_shape[OF a] b unfolding s_def[symmetric] pw by simp
qed

theorem one_session_after_begins_witness:
  "(case begin_seq [\<lambda>w. w, \<lambda>w. w] (idle example_world) of
      (p, w) \<Rightarrow>
        currentTitleEl p = Some 3
        \<and> listeners w = [(3, Listener EvInput (TitleInputHandler 2 3) False),
                          (3, Listener EvKeydown (TitleKeyHandler 3) True)])"
  using one_session_after_begins[where fs = "[\<lambda>w. w, \<lambda>w. w]" and acts = "[]" and ?w0.0 = example_world]
  by (simp add: idle_def initial_plugin_def example_world_def example_view_def external_def focusTitle_def
      cleanupTitleHandlers_def addEventListener_def removeEventListener_def trimmedText_def Let_def)

subsection \<open>The live value\<close>

lemma trimmedText_trimmed: "trim (trimmedText w el) = trimmedText w el"
  by (simp add: trimmedText_def trim_idem split: option.splits) (simp add: trim_def)

lemma focusTitle_editedTitle:
  "editedTitle (fst (focusTitle p w))
     = (case targeted w of None \<Rightarrow> editedTitle p | Some el \<Rightarrow> trimmedText w el)"
  by (simp add: focusTitle_def targeted_def Let_def split_beta trimmedText_def cleanup_keeps
      split: option.splits)

lemma live_trimmed_focusTitle:
  "live_trimmed p \<Longrightarrow> live_trimmed (fst (focusTitle p w))"
  by (simp add: live_trimmed_def focusTitle_editedTitle trimmedText_trimmed split: option.splits)

lemma titleKeyHandler_editedTitle:
  "editedTitle (fst (snd (titleKeyHandler_call evt p w))) = editedTitle p"
  by (simp add: titleKeyHandler_call_def Let_def split_beta returnToEditor_keeps cleanup_keeps)

lemma live_trimmed_invoke:
  "live_trimmed p \<Longrightarrow> live_trimmed (fst (snd (invoke h evt p w)))"
  by (cases h)
     (simp_all add: live_trimmed_def titleKeyHandler_editedTitle titleInputHandler_call_def trimmedText_trimmed)

lemma live_trimmed_runListeners:
  "live_trimmed p \<Longrightarrow> live_trimmed (fst (snd (runListeners ls ty evt p w)))"
proof (induction ls ty evt p w rule: runListeners.induct)
  case (1 ty evt p w)
  then show ?case by simp
next
  case (2 el ty' h cap ls ty evt p w)
  show ?case
  proof (cases "el = target evt \<and> ty' = ty \<and> List.member (listeners w) (el, Listener ty' h cap)")
    case True
    obtain evt1 p1 w1 where inv: "invoke h evt p w = (evt1, p1, w1)" by (cases "invoke h evt p w") auto
    have "live_trimmed p1" using live_trimmed_invoke[OF "2.prems", of h evt w] inv by simp
    then have "live_trimmed (fst (snd (runListeners ls ty evt1 p1 w1)))"
      using "2.IH"(1)[OF True inv[symmetric] refl] by simp
    moreover have "runListeners ((el, Listener ty' h cap) # ls) ty evt p w = runListeners ls ty evt1 p1 w1"
      using True inv by auto
    ultimately show ?thesis by simp
  next
    case False
    then have "runListeners ((el, Listener ty' h cap) # ls) ty evt p w = runListeners ls ty evt p w"
      by auto
    then show ?thesis using "2.IH"(2)[OF False "2.prems"] by simp
  qed
qed

lemma live_trimmed_handleEditorKeydown:
  "live_trimmed p \<Longrightarrow> live_trimmed (fst (snd (handleEditorKeydown evt p w)))"
  using live_trimmed_focusTitle[of p w]
  by (simp add: handleEditorKeydown_def Let_def split_beta split: option.splits)

lemma live_trimmed_step:
  assumes "live_trimmed (fst s)"
  shows "live_trimmed (fst (step a s))"
proof (cases s)
  case (Pair p w)
  with assms have t: "live_trimmed p" by simp
  show ?thesis
  proof (cases a)
    case (Keydown evt)
    obtain evt1 p1 w1 where h: "handleEditorKeydown evt p w = (evt1, p1, w1)"
      by (cases "handleEditorKeydown evt p w") auto
    have t1: "live_trimmed p1" using live_trimmed_handleEditorKeydown[OF t, of evt w] h by simp
    show ?thesis using Keydown Pair t1 live_trimmed_runListeners[OF t1]
      by (simp add: dispatchKeydown_def h)
  next
    case (InputAt el)
    then show ?thesis using Pair live_trimmed_runListeners[OF t] by (simp add: dispatchInput_def)
  next
    case Command
    then show ?thesis using Pair live_trimmed_focusTitle[OF t] by simp
  next
    case (VimModeChange m)
    then show ?thesis using Pair t by (simp add: live_trimmed_def vimModeHandler_def)
  next
    case (RenameSettled t r)
    then show ?thesis using Pair \<open>live_trimmed p\<close> by simp
  next
    case (External f)
    then show ?thesis using Pair t by simp
  qed
qed

lemma live_trimmed_run:
  "live_trimmed (fst s) \<Longrightarrow> live_trimmed (fst (run acts s))"
  by (induction acts arbitrary: s) (simp_all add: live_trimmed_step)

lemma reachable_live_trimmed: "live_trimmed (fst (run acts (idle w0)))"
proof -
  have "live_trimmed (fst (idle w0))"
    by (simp add: idle_def initial_plugin_def live_trimmed_def trim_def)
  then show ?thesis by (rule live_trimmed_run)
qed

lemma dispatchInput_session:
  assumes ok: "session_ok p w" and el: "currentTitleEl p = Some el"
  shows "dispatchInput el p w = (p\<lparr>editedTitle := trimmedText w el\<rparr>, w)"
proof -
  obtain ih kh where hs: "isInputHandlerOf el ih" "isKeyHandler kh"
      "listeners w = [(el, Listener EvInput ih False), (el, Listener EvKeydown kh True)]"
    using ok el by (auto simp: session_ok_def split: option.splits)
  from hs(1) obtain n where ih: "ih = TitleInputHandler n el" by (cases ih) auto
  show ?thesis
    by (simp add: dispatchInput_def hs(3) ih titleInputHandler_call_def)
qed

text \<open>
  C10. When \<^verbatim>\<open>focusTitle\<close> finds the title element, the live value it stores is the
  element's text content trimmed, the empty string when the content is null, and the
  content itself is left as it was. In every state the plugin can reach, an input event on
  the recorded title element stores the trimmed text content of that element again and
  changes nothing else; the live value is its own trimmed form, so it is empty or neither
  starts nor ends with white space; and a terminal key hands exactly this value to
  \<^verbatim>\<open>saveTitleValue\<close>.
\<close>

theorem live_value_is_trimmed_text:
  "(activeView w = Some v \<and> querySelector w (containerEl v) (js ''.inline-title'') = Some el \<longrightarrow>
      editedTitle (fst (focusTitle p w)) = (case textContent w el of None \<Rightarrow> [] | Some t \<Rightarrow> trim t)
      \<and> textContent (snd (focusTitle p w)) = textContent w)
   \<and> (case run acts (idle w0) of
        (p0, w1) \<Rightarrow>
          (case currentTitleEl p0 of
             None \<Rightarrow> True
           | Some titleEl \<Rightarrow>
               dispatchInput titleEl p0 w1 =
                 (p0\<lparr>editedTitle := (case textContent w1 titleEl of None \<Rightarrow> [] | Some t \<Rightarrow> trim t)\<rparr>, w1))
          \<and> trim (editedTitle p0) = editedTitle p0
          \<and> (editedTitle p0 = [] \<or> \<not> isWhiteSpace (hd (editedTitle p0)) \<and> \<not> isWhiteSpace (last (editedTitle p0)))
          \<and> (key evt = js ''Escape'' \<or> key evt = js ''Enter'' \<longrightarrow>
               snd (titleKeyHandler_call evt p0 w1) =
                 returnToEditor (fst (cleanupTitleHandlers p0 (saveTitleValue (editedTitle p0) w1)))
                                (snd (cleanupTitleHandlers p0 (saveTitleValue (editedTitle p0) w1)))))"
proof (intro conjI impI)
  assume a: "activeView w = Some v \<and> querySelector w (containerEl v) (js ''.inline-title'') = Some el"
  then have t: "targeted w = Some el" by (simp add: targeted_def)
  show "editedTitle (fst (focusTitle p w)) = (case textContent w el of None \<Rightarrow> [] | Some t \<Rightarrow> trim t)"
    by (simp add: focusTitle_editedTitle t trimmedText_def)
  show "textContent (snd (focusTitle p w)) = textContent w"
    using a by (simp add: focusTitle_def Let_def split_beta addEventListener_def cleanup_keeps)
next
  obtain p0 w1 where r: "run acts (idle w0) = (p0, w1)" by (cases "run acts (idle w0)")
  have ok: "session_ok p0 w1" using reachable_session_ok[of acts w0] r by simp
  have tr: "trim (editedTitle p0) = editedTitle p0"
    using reachable_live_trimmed[of acts w0] r by (simp add: live_trimmed_def)
  have ends: "editedTitle p0 = [] \<or> \<not> isWhiteSpace (hd (editedTitle p0)) \<and> \<not> isWhiteSpace (last (editedTitle p0))"
    using tr by (simp add: trim_self_iff)
  have inp: "case currentTitleEl p0 of None \<Rightarrow> True
     | Some titleEl \<Rightarrow> dispatchInput titleEl p0 w1 =
         (p0\<lparr>editedTitle := (case textContent w1 titleEl of None \<Rightarrow> [] | Some t \<Rightarrow> trim t)\<rparr>, w1)"
    using dispatchInput_session[OF ok] by (simp add: trimmedText_def split: option.splits)
  have keyh: "key evt = js ''Escape'' \<or> key evt = js ''Enter'' \<longrightarrow>
               snd (titleKeyHandler_call evt p0 w1) =
                 returnToEditor (fst (cleanupTitleHandlers p0 (saveTitleValue (editedTitle p0) w1)))
                                (snd (cleanupTitleHandlers p0 (saveTitleValue (editedTitle p0) w1)))"
    by (simp add: titleKeyHandler_terminal)
  show "case run acts (idle w0) of
        (p0, w1) \<Rightarrow>
          (case currentTitleEl p0 of
             None \<Rightarrow> True
           | Some titleEl \<Rightarrow>
               dispatchInput titleEl p0 w1 =
                 (p0\<lparr>editedTitle := (case textContent w1 titleEl of None \<Rightarrow> [] | Some t \<Rightarrow> trim t)\<rparr>, w1))
          \<and> trim (editedTitle p0) = editedTitle p0
          \<and> (editedTitle p0 = [] \<or> \<not> isWhiteSpace (hd (editedTitle p0)) \<and> \<not> isWhiteSpace (last (editedTitle p0)))
          \<and> (key evt = js ''Escape'' \<or> key evt = js ''Enter'' \<longrightarrow>
               snd (titleKeyHandler_call evt p0 w1) =
                 returnToEditor (fst (cleanupTitleHandlers p0 (saveTitleValue (editedTitle p0) w1)))
                                (snd (cleanupTitleHandlers p0 (saveTitleValue (editedTitle p0) w1))))"
    unfolding r using inp tr ends keyh by simp
qed

theorem live_value_is_trimmed_text_witness:
  "editedTitle (fst (focusTitle initial_plugin example_world)) = js ''New''
   \<and> (case run [Command, External (\<lambda>w. w\<lparr>textContent := (\<lambda>e. Some (js ''  Draft ''))\<rparr>)]
              (idle example_world) of
        (p0, w1) \<Rightarrow> currentTitleEl p0 = Some 3 \<and> editedTitle p0 = js ''New''
          \<and> editedTitle (fst (dispatchInput 3 p0 w1)) = js ''Draft'')"
  using live_value_is_trimmed_text[where w = example_world and v = example_view and el = 3
      and p = initial_plugin and ?w0.0 = example_world and evt = "keydown ''Enter'' 3"
      and acts = "[Command, External (\<lambda>w. w\<lparr>textContent := (\<lambda>e. Some (js ''  Draft ''))\<rparr>)]"]
  by (simp add: idle_def initial_plugin_def example_world_def example_view_def external_def focusTitle_def
      cleanupTitleHandlers_def addEventListener_def removeEventListener_def trimmedText_def Let_def
      trim_def isWhiteSpace_def js_def)

subsection \<open>Terminal keys\<close>

lemma terminal_key_session:
  assumes k: "key evt = js ''Escape'' \<or> key evt = js ''Enter''"
    and ok: "session_ok p w"
  shows "titleKeyHandler_call evt p w =
    (evt\<lparr>defaultPrevented := True, propagationStopped := True\<rparr>,
     returnToEditor
       (p\<lparr>titleKeyHandler := None, titleInputHandler := None, currentTitleEl := None, inTitleMode := False\<rparr>)
       ((saveTitleValue (editedTitle p) w)\<lparr>listeners := []\<rparr>))"
proof -
  have "session_ok p (saveTitleValue (editedTitle p) w)" using ok by (simp add: session_ok_saveTitleValue)
  then show ?thesis by (simp add: titleKeyHandler_terminal[OF k] cleanup_closed)
qed

lemma terminal_key_returns:
  assumes k: "key evt = js ''Escape'' \<or> key evt = js ''Enter''"
    and ok: "session_ok p w"
    and v: "activeView w = Some v"
  shows "focused (snd (snd (titleKeyHandler_call evt p w))) = EditorFocus (containerEl v)"
    and "map_option cursor (activeView (snd (snd (titleKeyHandler_call evt p w)))) = Some \<lparr>line = 0, ch = 0\<rparr>"
    and "listeners (snd (snd (titleKeyHandler_call evt p w))) = []"
    and "currentTitleEl (fst (snd (titleKeyHandler_call evt p w))) = None"
    and "\<not> inTitleMode (fst (snd (titleKeyHandler_call evt p w)))"
proof -
  have av: "\<exists>v'. activeView (saveTitleValue (editedTitle p) w) = Some v' \<and> containerEl v' = containerEl v"
    using v by (auto simp: saveTitleValue_def Notice_def renameFile_def Let_def split: option.splits)
  then obtain v' where v': "activeView (saveTitleValue (editedTitle p) w) = Some v'" "containerEl v' = containerEl v"
    by blast
  show "focused (snd (snd (titleKeyHandler_call evt p w))) = EditorFocus (containerEl v)"
    and "map_option cursor (activeView (snd (snd (titleKeyHandler_call evt p w)))) = Some \<lparr>line = 0, ch = 0\<rparr>"
    and "listeners (snd (snd (titleKeyHandler_call evt p w))) = []"
    and "currentTitleEl (fst (snd (titleKeyHandler_call evt p w))) = None"
    and "\<not> inTitleMode (fst (snd (titleKeyHandler_call evt p w)))"
    using v' by (simp_all add: terminal_key_session[OF k ok] returnToEditor_def)
qed

lemma js_Escape_not_k: "js ''Escape'' \<noteq> js ''k''" "js ''Enter'' \<noteq> js ''k''"
  by (simp_all add: js_def)

lemma dispatch_terminal_key:
  assumes k: "key evt = js ''Escape'' \<or> key evt = js ''Enter''"
    and ok: "session_ok p w"
    and el: "currentTitleEl p = Some (target evt)"
    and fresh: "\<not> propagationStopped evt"
  shows "dispatchKeydown evt p w = titleKeyHandler_call evt p w"
proof -
  have h: "handleEditorKeydown evt p w = (evt, p, w)"
    using k js_Escape_not_k by (auto simp: handleEditorKeydown_def)
  obtain ih kh where hs: "titleInputHandler p = Some ih" "titleKeyHandler p = Some kh"
      "isInputHandlerOf (target evt) ih" "isKeyHandler kh"
      "listeners w = [(target evt, Listener EvInput ih False), (target evt, Listener EvKeydown kh True)]"
    using ok el by (auto simp: session_ok_def split: option.splits)
  from hs(4) obtain n where kh: "kh = TitleKeyHandler n" by (cases kh) auto
  show ?thesis using fresh
    by (simp add: dispatchKeydown_def h hs(5) kh split_beta)
qed

lemma js_keys_differ:
  "js ''Enter'' \<noteq> js ''j''" "js ''Enter'' \<noteq> js ''Escape''" "js ''Escape'' \<noteq> js ''j''"
  by (simp_all add: js_def)

lemma handleTitleKeydown_cases:
  assumes "classListContains w (target evt) (js ''inline-title'')"
  shows "(key evt = js ''Escape'' \<or> key evt = js ''j'' \<longrightarrow>
            handleTitleKeydown evt p w =
              (evt\<lparr>defaultPrevented := True, propagationStopped := True\<rparr>, returnToEditor p w))
       \<and> (key evt = js ''Enter'' \<longrightarrow>
            handleTitleKeydown evt p w =
              (evt\<lparr>defaultPrevented := True, propagationStopped := True\<rparr>,
               returnToEditor p (saveTitle (target evt) w)))"
  using assms js_keys_differ
  by (auto simp: handleTitleKeydown_def Let_def split_beta preventDefault_def stopPropagation_def)

lemma terminal_key_after:
  assumes k: "key evt = js ''Escape'' \<or> key evt = js ''Enter''"
    and ok: "session_ok p w"
  shows "listeners (snd (snd (titleKeyHandler_call evt p w))) = []"
    and "currentTitleEl (fst (snd (titleKeyHandler_call evt p w))) = None"
    and "\<not> inTitleMode (fst (snd (titleKeyHandler_call evt p w)))"
    and "activeView w = None \<Longrightarrow> focused (snd (snd (titleKeyHandler_call evt p w))) = focused w"
    and "activeView w = None \<Longrightarrow> renames (snd (snd (titleKeyHandler_call evt p w))) = renames w"
    and "activeView w = None \<Longrightarrow> notices (snd (snd (titleKeyHandler_call evt p w))) = notices w"
proof -
  have av: "(activeView (saveTitleValue (editedTitle p) w) = None) = (activeView w = None)"
    by (auto simp: saveTitleValue_def Notice_def renameFile_def Let_def split: option.splits)
  show "listeners (snd (snd (titleKeyHandler_call evt p w))) = []"
    and "currentTitleEl (fst (snd (titleKeyHandler_call evt p w))) = None"
    and "\<not> inTitleMode (fst (snd (titleKeyHandler_call evt p w)))"
    by (simp_all add: terminal_key_session[OF k ok] returnToEditor_def split: option.splits)
  assume n: "activeView w = None"
  then have s: "saveTitleValue (editedTitle p) w = w" by (simp add: saveTitleValue_def)
  show "focused (snd (snd (titleKeyHandler_call evt p w))) = focused w"
    and "renames (snd (snd (titleKeyHandler_call evt p w))) = renames w"
    and "notices (snd (snd (titleKeyHandler_call evt p w))) = notices w"
    using n by (simp_all add: terminal_key_session[OF k ok] s returnToEditor_def)
qed

text \<open>
  C2, as the claim states it, fails. In \<^verbatim>\<open>part_000\<close>, with the title focused after
  \<^verbatim>\<open>focusTitle\<close> and showing \<^verbatim>\<open>" New "\<close> over the note \<^verbatim>\<open>Old\<close>, Escape requests no rename
  where Enter requests the one to \<^verbatim>\<open>notes/New.md\<close>. In \<^verbatim>\<open>src/main.ts\<close>, with a session open:
  when no markdown view is active any more, Escape leaves the focus on the title and
  requests nothing; when the view has no file, Enter drops the live value \<^verbatim>\<open>New\<close> without
  a rename or a notice.
\<close>

theorem terminal_keys_counterexample:
  "inTitleMode (fst (focusTitle_part000 initial_plugin example_world))
   \<and> focused (snd (focusTitle_part000 initial_plugin example_world)) = ElemFocus 3
   \<and> renames (snd (snd (handleTitleKeydown (keydown ''Escape'' 3)
        (fst (focusTitle_part000 initial_plugin example_world))
        (snd (focusTitle_part000 initial_plugin example_world))))) = []
   \<and> renames (snd (snd (handleTitleKeydown (keydown ''Enter'' 3)
        (fst (focusTitle_part000 initial_plugin example_world))
        (snd (focusTitle_part000 initial_plugin example_world)))))
       = [(example_file, js ''notes/New.md'')]
   \<and> focused (snd (run [Command, External (\<lambda>w. w\<lparr>activeView := None\<rparr>), Keydown (keydown ''Escape'' 3)]
        (idle example_world))) = ElemFocus 3
   \<and> renames (snd (run [Command, External (\<lambda>w. w\<lparr>activeView := None\<rparr>), Keydown (keydown ''Escape'' 3)]
        (idle example_world))) = []
   \<and> editedTitle (fst (run [Command] (idle fileless_world))) = js ''New''
   \<and> renames (snd (run [Command, Keydown (keydown ''Enter'' 3)] (idle fileless_world))) = []
   \<and> notices (snd (run [Command, Keydown (keydown ''Enter'' 3)] (idle fileless_world))) = []"
  by (simp add: idle_def initial_plugin_def example_world_def fileless_world_def example_view_def example_file_def
      external_def keydown_def dispatchKeydown_def handleEditorKeydown_def
      focusTitle_def focusTitle_part000_def handleTitleKeydown_def saveTitle_def
      cleanupTitleHandlers_def addEventListener_def removeEventListener_def
      trimmedText_def titleKeyHandler_call_def saveTitleValue_def
      returnToEditor_def renameFile_def preventDefault_def stopPropagation_def Let_def
      trim_def isWhiteSpace_def js_def)

lemma terminal_key_main:
  assumes ok: "session_ok p w"
  shows "key evt = js ''Escape'' \<or> key evt = js ''Enter'' \<longrightarrow>
          titleKeyHandler_call evt p w =
            (evt\<lparr>defaultPrevented := True, propagationStopped := True\<rparr>,
             returnToEditor
               (p\<lparr>titleKeyHandler := None, titleInputHandler := None,
                  currentTitleEl := None, inTitleMode := False\<rparr>)
               ((saveTitleValue (editedTitle p) w)\<lparr>listeners := []\<rparr>))
          \<and> (key evt2 = js ''Escape'' \<or> key evt2 = js ''Enter'' \<longrightarrow>
                snd (titleKeyHandler_call evt2 p w) = snd (titleKeyHandler_call evt p w))
          \<and> (currentTitleEl p = Some (target evt) \<and> \<not> propagationStopped evt \<longrightarrow>
                dispatchKeydown evt p w = titleKeyHandler_call evt p w)
          \<and> (case titleKeyHandler_call evt p w of
                (evt', p', w') \<Rightarrow>
                  listeners w' = [] \<and> currentTitleEl p' = None \<and> \<not> inTitleMode p'
                  \<and> renames w' = renames (saveTitleValue (editedTitle p) w)
                  \<and> notices w' = notices (saveTitleValue (editedTitle p) w)
                  \<and> (case activeView w of
                        None \<Rightarrow> focused w' = focused w \<and> renames w' = renames w \<and> notices w' = notices w
                      | Some v \<Rightarrow>
                          focused w' = EditorFocus (containerEl v)
                          \<and> map_option cursor (activeView w') = Some \<lparr>line = 0, ch = 0\<rparr>))"
  proof (intro impI conjI)
    assume k: "key evt = js ''Escape'' \<or> key evt = js ''Enter''"
    show "titleKeyHandler_call evt p w =
            (evt\<lparr>defaultPrevented := True, propagationStopped := True\<rparr>,
             returnToEditor
               (p\<lparr>titleKeyHandler := None, titleInputHandler := None,
                  currentTitleEl := None, inTitleMode := False\<rparr>)
               ((saveTitleValue (editedTitle p) w)\<lparr>listeners := []\<rparr>))"
      by (rule terminal_key_session[OF k ok])
    show "snd (titleKeyHandler_call evt2 p w) = snd (titleKeyHandler_call evt p w)"
      if k2: "key evt2 = js ''Escape'' \<or> key evt2 = js ''Enter''"
      by (simp add: terminal_key_session[OF k ok] terminal_key_session[OF k2 ok])
    show "dispatchKeydown evt p w = titleKeyHandler_call evt p w"
      if "currentTitleEl p = Some (target evt) \<and> \<not> propagationStopped evt"
      using that dispatch_terminal_key[OF k ok] by simp
    show "case titleKeyHandler_call evt p w of
                (evt', p', w') \<Rightarrow>
                  listeners w' = [] \<and> currentTitleEl p' = None \<and> \<not> inTitleMode p'
                  \<and> renames w' = renames (saveTitleValue (editedTitle p) w)
                  \<and> notices w' = notices (saveTitleValue (editedTitle p) w)
                  \<and> (case activeView w of
                        None \<Rightarrow> focused w' = focused w \<and> renames w' = renames w \<and> notices w' = notices w
                      | Some v \<Rightarrow>
                          focused w' = EditorFocus (containerEl v)
                          \<and> map_option cursor (activeView w') = Some \<lparr>line = 0, ch = 0\<rparr>)"
      using terminal_key_after[OF k ok] titleKeyHandler_commits[OF k, of p w]
        terminal_key_returns(1,2)[OF k ok]
      by (simp add: split_beta split: option.splits)
  qed

text \<open>
  C2, amended. In \<^verbatim>\<open>src/main.ts\<close>, in every state the plugin can reach, the key handler
  treats Escape and Enter alike: the event's default is prevented and its propagation
  stopped, \<^verbatim>\<open>saveTitleValue\<close> is called with the live value (so renames and notices are
  those of that call), the session is torn down (no recorded element, no listener
  attached, not in title mode), and then, if a markdown view is active, its editor has the
  focus and its cursor is at line 0, column 0; if none is active, the focus stays where it
  was and nothing is renamed or shown. With the session open on the event's target, this
  handler is what a keydown event runs. In \<^verbatim>\<open>part_000\<close>, for a key pressed in the inline
  title, Escape and \<^verbatim>\<open>j\<close> return to the editor without saving, and only Enter saves the
  title and returns.
\<close>

theorem terminal_keys_commit_and_return:
  "(case run acts (idle w0) of
      (p, w) \<Rightarrow>
        key evt = js ''Escape'' \<or> key evt = js ''Enter'' \<longrightarrow>
          titleKeyHandler_call evt p w =
            (evt\<lparr>defaultPrevented := True, propagationStopped := True\<rparr>,
             returnToEditor
               (p\<lparr>titleKeyHandler := None, titleInputHandler := None,
                  currentTitleEl := None, inTitleMode := False\<rparr>)
               ((saveTitleValue (editedTitle p) w)\<lparr>listeners := []\<rparr>))
          \<and> (key evt2 = js ''Escape'' \<or> key evt2 = js ''Enter'' \<longrightarrow>
                snd (titleKeyHandler_call evt2 p w) = snd (titleKeyHandler_call evt p w))
          \<and> (currentTitleEl p = Some (target evt) \<and> \<not> propagationStopped evt \<longrightarrow>
                dispatchKeydown evt p w = titleKeyHandler_call evt p w)
          \<and> (case titleKeyHandler_call evt p w of
                (evt', p', w') \<Rightarrow>
                  listeners w' = [] \<and> currentTitleEl p' = None \<and> \<not> inTitleMode p'
                  \<and> renames w' = renames (saveTitleValue (editedTitle p) w)
                  \<and> notices w' = notices (saveTitleValue (editedTitle p) w)
                  \<and> (case activeView w of
                        None \<Rightarrow> focused w' = focused w \<and> renames w' = renames w \<and> notices w' = notices w
                      | Some v \<Rightarrow>
                          focused w' = EditorFocus (containerEl v)
                          \<and> map_option cursor (activeView w') = Some \<lparr>line = 0, ch = 0\<rparr>)))
   \<and> (classListContains w1 (target e1) (js ''inline-title'') \<longrightarrow>
        (key e1 = js ''Escape'' \<or> key e1 = js ''j'' \<longrightarrow>
           handleTitleKeydown e1 p1 w1 =
             (e1\<lparr>defaultPrevented := True, propagationStopped := True\<rparr>, returnToEditor p1 w1))
        \<and> (key e1 = js ''Enter'' \<longrightarrow>
           handleTitleKeydown e1 p1 w1 =
             (e1\<lparr>defaultPrevented := True, propagationStopped := True\<rparr>,
              returnToEditor p1 (saveTitle (target e1) w1))))"
proof -
  obtain p w where r: "run acts (idle w0) = (p, w)" by (cases "run acts (idle w0)")
  have ok: "session_ok p w" using reachable_session_ok[of acts w0] r by simp
  show ?thesis
    unfolding r prod.case
    by (intro conjI terminal_key_main[OF ok]) (use handleTitleKeydown_cases[of w1 e1 p1] in blast)
qed

theorem terminal_keys_commit_and_return_witness:
  "snd (titleKeyHandler_call (keydown ''Escape'' 3)
         (fst (run [Command] (idle example_world))) (snd (run [Command] (idle example_world))))
     = snd (titleKeyHandler_call (keydown ''Enter'' 3)
         (fst (run [Command] (idle example_world))) (snd (run [Command] (idle example_world))))
   \<and> renames (snd (run [Command, Keydown (keydown ''Escape'' 3)] (idle example_world)))
       = [(example_file, js ''notes/New.md'')]
   \<and> focused (snd (run [Command, Keydown (keydown ''Escape'' 3)] (idle example_world))) = EditorFocus 1
   \<and> listeners (snd (run [Command, Keydown (keydown ''Escape'' 3)] (idle example_world))) = []
   \<and> handleTitleKeydown (keydown ''Escape'' 3) initial_plugin example_world
       = ((keydown ''Escape'' 3)\<lparr>defaultPrevented := True, propagationStopped := True\<rparr>,
          returnToEditor initial_plugin example_world)
   \<and> handleTitleKeydown (keydown ''Enter'' 3) initial_plugin example_world
       = ((keydown ''Enter'' 3)\<lparr>defaultPrevented := True, propagationStopped := True\<rparr>,
          returnToEditor initial_plugin (saveTitle 3 example_world))"
  using terminal_keys_commit_and_return[where acts = "[Command]" and ?w0.0 = example_world
      and evt = "keydown ''Enter'' 3" and ?evt2.0 = "keydown ''Escape'' 3"
      and ?w1.0 = example_world and ?e1.0 = "keydown ''Escape'' 3" and ?p1.0 = initial_plugin]
    terminal_keys_commit_and_return[where acts = "[Command]" and ?w0.0 = example_world
      and evt = "keydown ''Escape'' 3" and ?evt2.0 = "keydown ''Enter'' 3"
      and ?w1.0 = example_world and ?e1.0 = "keydown ''Enter'' 3" and ?p1.0 = initial_plugin]
  by (simp add: idle_def initial_plugin_def example_world_def example_view_def example_file_def
      keydown_def dispatchKeydown_def handleEditorKeydown_def focusTitle_def
      cleanupTitleHandlers_def addEventListener_def removeEventListener_def
      trimmedText_def titleKeyHandler_call_def saveTitleValue_def
      returnToEditor_def renameFile_def preventDefault_def stopPropagation_def Let_def
      trim_def isWhiteSpace_def js_def)

subsection \<open>A whole episode\<close>

text \<open>
  In normal mode with the cursor on line 0, \<^verbatim>\<open>k\<close> is pressed in the body; the title is
  edited to \<^verbatim>\<open>NewName\<close>; Enter is pressed in the title. One rename to
  \<^verbatim>\<open>notes/NewName.md\<close> is requested, the session is closed with nothing attached, and the
  editor has the focus with its cursor at line 0, column 0.
\<close>

lemma round_trip_example:
  "(case run [Keydown (keydown ''k'' 4),
              External (\<lambda>w. w\<lparr>textContent := (\<lambda>e. Some (js ''NewName''))\<rparr>),
              InputAt 3,
              Keydown (keydown ''Enter'' 3)] (idle example_world) of
      (p, w) \<Rightarrow>
        renames w = [(example_file, js ''notes/NewName.md'')] \<and> notices w = []
        \<and> listeners w = [] \<and> \<not> inTitleMode p \<and> currentTitleEl p = None
        \<and> focused w = EditorFocus 1
        \<and> map_option cursor (activeView w) = Some \<lparr>line = 0, ch = 0\<rparr>)"
  by (simp add: idle_def initial_plugin_def example_world_def example_view_def example_file_def
      external_def keydown_def dispatchKeydown_def dispatchInput_def handleEditorKeydown_def
      focusTitle_def cleanupTitleHandlers_def addEventListener_def removeEventListener_def
      trimmedText_def titleInputHandler_call_def titleKeyHandler_call_def saveTitleValue_def
      returnToEditor_def renameFile_def preventDefault_def stopPropagation_def Let_def
      trim_def isWhiteSpace_def js_def)

subsection \<open>Committing a title\<close>

text \<open>
  C3, as the claim states it, fails when the active view has no file: the live value is
  empty after the title was cleared to two spaces, yet Enter shows no notice, and neither
  does \<^verbatim>\<open>saveTitleValue\<close> given the empty string.
\<close>

theorem empty_title_counterexample:
  "trim (js ''  '') = []
   \<and> editedTitle (fst (run [Command, External (\<lambda>w. w\<lparr>textContent := (\<lambda>e. Some (js ''  ''))\<rparr>), InputAt 3]
        (idle fileless_world))) = []
   \<and> notices (snd (run [Command, External (\<lambda>w. w\<lparr>textContent := (\<lambda>e. Some (js ''  ''))\<rparr>), InputAt 3,
        Keydown (keydown ''Enter'' 3)] (idle fileless_world))) = []
   \<and> notices (saveTitleValue [] fileless_world) = []"
  by (simp add: idle_def initial_plugin_def example_world_def fileless_world_def example_view_def
      external_def keydown_def dispatchKeydown_def dispatchInput_def handleEditorKeydown_def focusTitle_def
      cleanupTitleHandlers_def addEventListener_def removeEventListener_def
      trimmedText_def titleKeyHandler_call_def titleInputHandler_call_def saveTitleValue_def
      returnToEditor_def preventDefault_def stopPropagation_def Let_def
      trim_def isWhiteSpace_def js_def)

text \<open>
  C3, amended. When the active view has a file: in every state the plugin can reach,
  \<^verbatim>\<open>saveTitleValue\<close> does with the live value what it does with its trimmed form, and when
  that form is empty it shows \<^verbatim>\<open>Title cannot be empty\<close> and changes nothing else, so no
  rename is requested; a terminal key then adds exactly this notice and no rename. In
  \<^verbatim>\<open>part_000\<close>, \<^verbatim>\<open>saveTitle\<close> does the same when the text of the title element is null or
  trims to the empty string.
\<close>

theorem empty_title_rejected:
  "(case run acts (idle w0) of
      (p, w) \<Rightarrow>
        activeView w = Some v \<and> viewFile v = Some f \<longrightarrow>
          saveTitleValue (editedTitle p) w = saveTitleValue (trim (editedTitle p)) w
          \<and> (trim (editedTitle p) = [] \<longrightarrow>
                saveTitleValue (editedTitle p) w = w\<lparr>notices := notices w @ [js ''Title cannot be empty'']\<rparr>
                \<and> (key evt = js ''Escape'' \<or> key evt = js ''Enter'' \<longrightarrow>
                      notices (snd (snd (titleKeyHandler_call evt p w)))
                        = notices w @ [js ''Title cannot be empty'']
                      \<and> renames (snd (snd (titleKeyHandler_call evt p w))) = renames w)))
   \<and> (activeView w1 = Some v1 \<and> viewFile v1 = Some f1
        \<and> (case textContent w1 el of None \<Rightarrow> True | Some raw \<Rightarrow> trim raw = []) \<longrightarrow>
        saveTitle el w1 = w1\<lparr>notices := notices w1 @ [js ''Title cannot be empty'']\<rparr>)"
proof -
  obtain p w where r: "run acts (idle w0) = (p, w)" by (cases "run acts (idle w0)")
  have tr: "trim (editedTitle p) = editedTitle p"
    using reachable_live_trimmed[of acts w0] r by (simp add: live_trimmed_def)
  have part: "activeView w1 = Some v1 \<and> viewFile v1 = Some f1
        \<and> (case textContent w1 el of None \<Rightarrow> True | Some raw \<Rightarrow> trim raw = []) \<longrightarrow>
        saveTitle el w1 = w1\<lparr>notices := notices w1 @ [js ''Title cannot be empty'']\<rparr>"
    by (auto simp: saveTitle_is_saveTitleValue saveTitleValue_cases trimmedText_def split: option.splits)
  show ?thesis
    unfolding r prod.case tr using part
    by (simp add: titleKeyHandler_commits saveTitleValue_cases)
qed

theorem empty_title_rejected_witness:
  "notices (snd (run [Command, External (\<lambda>w. w\<lparr>textContent := (\<lambda>e. Some (js ''  ''))\<rparr>), InputAt 3,
        Keydown (keydown ''Escape'' 3)] (idle example_world))) = [js ''Title cannot be empty'']
   \<and> renames (snd (run [Command, External (\<lambda>w. w\<lparr>textContent := (\<lambda>e. Some (js ''  ''))\<rparr>), InputAt 3,
        Keydown (keydown ''Escape'' 3)] (idle example_world))) = []
   \<and> saveTitle 3 (example_world\<lparr>textContent := (\<lambda>e. Some (js ''  ''))\<rparr>)
       = example_world\<lparr>textContent := (\<lambda>e. Some (js ''  '')), notices := [js ''Title cannot be empty'']\<rparr>"
  using empty_title_rejected[where
      acts = "[Command, External (\<lambda>w. w\<lparr>textContent := (\<lambda>e. Some (js ''  ''))\<rparr>), InputAt 3]"
      and ?w0.0 = example_world and v = example_view and f = example_file
      and evt = "keydown ''Escape'' 3" and el = 3 and ?v1.0 = example_view and ?f1.0 = example_file
      and ?w1.0 = "example_world\<lparr>textContent := (\<lambda>e. Some (js ''  ''))\<rparr>"]
  by (simp add: idle_def initial_plugin_def example_world_def example_view_def example_file_def
      external_def keydown_def dispatchKeydown_def dispatchInput_def handleEditorKeydown_def focusTitle_def
      cleanupTitleHandlers_def addEventListener_def removeEventListener_def
      trimmedText_def titleKeyHandler_call_def titleInputHandler_call_def saveTitleValue_def
      returnToEditor_def Notice_def preventDefault_def stopPropagation_def Let_def
      trim_def isWhiteSpace_def js_def)

text \<open>
  C5. When the active view has a file: in every state the plugin can reach, if the trimmed
  live value is not empty and differs from the file's basename, \<^verbatim>\<open>saveTitleValue\<close> called
  with the live value requests exactly one rename and changes nothing else, and a terminal
  key adds exactly that request and no notice. The path is the parent folder's path, a
  slash, the trimmed value and \<^verbatim>\<open>.md\<close> when that path is not empty, and the trimmed value and
  \<^verbatim>\<open>.md\<close> when it is empty or there is no parent. In \<^verbatim>\<open>part_000\<close>, \<^verbatim>\<open>saveTitle\<close> does the same
  with the trimmed text of the title element.
\<close>

theorem rename_request_path:
  "(case run acts (idle w0) of
      (p, w) \<Rightarrow>
        activeView w = Some v \<and> viewFile v = Some f
        \<and> trim (editedTitle p) \<noteq> [] \<and> trim (editedTitle p) \<noteq> basename f \<longrightarrow>
          saveTitleValue (editedTitle p) w
            = w\<lparr>renames := renames w @ [(f, claimedPath f (trim (editedTitle p)))]\<rparr>
          \<and> (key evt = js ''Escape'' \<or> key evt = js ''Enter'' \<longrightarrow>
                renames (snd (snd (titleKeyHandler_call evt p w)))
                  = renames w @ [(f, claimedPath f (trim (editedTitle p)))]
                \<and> notices (snd (snd (titleKeyHandler_call evt p w))) = notices w))
   \<and> (activeView w1 = Some v1 \<and> viewFile v1 = Some f1 \<and> textContent w1 el = Some raw
        \<and> trim raw \<noteq> [] \<and> trim raw \<noteq> basename f1 \<longrightarrow>
        saveTitle el w1 = w1\<lparr>renames := renames w1 @ [(f1, claimedPath f1 (trim raw))]\<rparr>)
   \<and> (parent f2 = Some folder \<and> folder \<noteq> [] \<longrightarrow>
        claimedPath f2 title = folder @ js ''/'' @ title @ js ''.md'')
   \<and> (parent f2 = Some [] \<or> parent f2 = None \<longrightarrow> claimedPath f2 title = title @ js ''.md'')"
proof -
  obtain p w where r: "run acts (idle w0) = (p, w)" by (cases "run acts (idle w0)")
  have tr: "trim (editedTitle p) = editedTitle p"
    using reachable_live_trimmed[of acts w0] r by (simp add: live_trimmed_def)
  have part: "activeView w1 = Some v1 \<and> viewFile v1 = Some f1 \<and> textContent w1 el = Some raw
        \<and> trim raw \<noteq> [] \<and> trim raw \<noteq> basename f1 \<longrightarrow>
        saveTitle el w1 = w1\<lparr>renames := renames w1 @ [(f1, claimedPath f1 (trim raw))]\<rparr>"
    by (auto simp: saveTitle_is_saveTitleValue saveTitleValue_cases trimmedText_def)
  have path: "(parent f2 = Some folder \<and> folder \<noteq> [] \<longrightarrow>
        claimedPath f2 title = folder @ js ''/'' @ title @ js ''.md'')
   \<and> (parent f2 = Some [] \<or> parent f2 = None \<longrightarrow> claimedPath f2 title = title @ js ''.md'')"
    by (auto simp: claimedPath_def)
  show ?thesis
    unfolding r prod.case tr using part path
    by (simp add: titleKeyHandler_commits saveTitleValue_cases)
qed

theorem rename_request_path_witness:
  "renames (snd (run [Command, Keydown (keydown ''Enter'' 3)] (idle example_world)))
     = [(example_file, js ''notes/New.md'')]
   \<and> notices (snd (run [Command, Keydown (keydown ''Enter'' 3)] (idle example_world))) = []
   \<and> saveTitle 3 example_world = example_world\<lparr>renames := [(example_file, js ''notes/New.md'')]\<rparr>
   \<and> claimedPath \<lparr>basename = js ''Old'', parent = Some []\<rparr> (js ''New'') = js ''New.md''"
  using rename_request_path[where acts = "[Command]" and ?w0.0 = example_world and v = example_view
      and f = example_file and evt = "keydown ''Enter'' 3" and el = 3 and raw = "js '' New ''"
      and ?v1.0 = example_view and ?f1.0 = example_file and ?w1.0 = example_world
      and ?f2.0 = "\<lparr>basename = js ''Old'', parent = Some []\<rparr>" and title = "js ''New''"]
  by (simp add: idle_def initial_plugin_def example_world_def example_view_def example_file_def
      keydown_def dispatchKeydown_def handleEditorKeydown_def focusTitle_def
      cleanupTitleHandlers_def addEventListener_def removeEventListener_def
      trimmedText_def titleKeyHandler_call_def saveTitleValue_def claimedPath_def
      returnToEditor_def renameFile_def preventDefault_def stopPropagation_def Let_def
      trim_def isWhiteSpace_def js_def)

text \<open>
  C6, as the claim states it, fails for a file whose basename is empty: after the title
  was cleared to two spaces the live value equals the basename, yet Enter shows
  \<^verbatim>\<open>Title cannot be empty\<close>.
\<close>

theorem unchanged_title_counterexample:
  "trim (js ''  '') = basename nameless_file
   \<and> editedTitle (fst (run [Command, External (\<lambda>w. w\<lparr>textContent := (\<lambda>e. Some (js ''  ''))\<rparr>), InputAt 3]
        (idle nameless_world))) = basename nameless_file
   \<and> notices (snd (run [Command, External (\<lambda>w. w\<lparr>textContent := (\<lambda>e. Some (js ''  ''))\<rparr>), InputAt 3,
        Keydown (keydown ''Enter'' 3)] (idle nameless_world))) = [js ''Title cannot be empty'']"
  by (simp add: idle_def initial_plugin_def example_world_def nameless_world_def nameless_file_def
      example_view_def external_def keydown_def dispatchKeydown_def dispatchInput_def
      handleEditorKeydown_def focusTitle_def
      cleanupTitleHandlers_def addEventListener_def removeEventListener_def
      trimmedText_def titleKeyHandler_call_def titleInputHandler_call_def saveTitleValue_def
      returnToEditor_def Notice_def preventDefault_def stopPropagation_def Let_def
      trim_def isWhiteSpace_def js_def)

text \<open>
  C6, amended. When the active view has a file: in every state the plugin can reach, if
  the trimmed live value is not empty and equals the file's basename, \<^verbatim>\<open>saveTitleValue\<close>
  called with the live value returns the world as it was, and a terminal key adds no
  rename and no notice. In \<^verbatim>\<open>part_000\<close>, \<^verbatim>\<open>saveTitle\<close> returns the world as it was when the
  trimmed text of the title element is not empty and equals the basename.
\<close>

theorem unchanged_title_noop:
  "(case run acts (idle w0) of
      (p, w) \<Rightarrow>
        activeView w = Some v \<and> viewFile v = Some f
        \<and> trim (editedTitle p) \<noteq> [] \<and> trim (editedTitle p) = basename f \<longrightarrow>
          saveTitleValue (editedTitle p) w = w
          \<and> (key evt = js ''Escape'' \<or> key evt = js ''Enter'' \<longrightarrow>
                renames (snd (snd (titleKeyHandler_call evt p w))) = renames w
                \<and> notices (snd (snd (titleKeyHandler_call evt p w))) = notices w))
   \<and> (activeView w1 = Some v1 \<and> viewFile v1 = Some f1 \<and> textContent w1 el = Some raw
        \<and> trim raw \<noteq> [] \<and> trim raw = basename f1 \<longrightarrow>
        saveTitle el w1 = w1)"
proof -
  obtain p w where r: "run acts (idle w0) = (p, w)" by (cases "run acts (idle w0)")
  have tr: "trim (editedTitle p) = editedTitle p"
    using reachable_live_trimmed[of acts w0] r by (simp add: live_trimmed_def)
  have part: "activeView w1 = Some v1 \<and> viewFile v1 = Some f1 \<and> textContent w1 el = Some raw
        \<and> trim raw \<noteq> [] \<and> trim raw = basename f1 \<longrightarrow>
        saveTitle el w1 = w1"
    by (auto simp: saveTitle_is_saveTitleValue saveTitleValue_cases trimmedText_def)
  show ?thesis
    unfolding r prod.case tr using part
    by (auto simp: titleKeyHandler_commits saveTitleValue_cases)
qed

theorem unchanged_title_noop_witness:
  "renames (snd (run [Command, External (\<lambda>w. w\<lparr>textContent := (\<lambda>e. Some (js '' Old ''))\<rparr>), InputAt 3,
        Keydown (keydown ''Enter'' 3)] (idle example_world))) = []
   \<and> notices (snd (run [Command, External (\<lambda>w. w\<lparr>textContent := (\<lambda>e. Some (js '' Old ''))\<rparr>), InputAt 3,
        Keydown (keydown ''Enter'' 3)] (idle example_world))) = []
   \<and> saveTitle 3 (example_world\<lparr>textContent := (\<lambda>e. Some (js '' Old ''))\<rparr>)
       = example_world\<lparr>textContent := (\<lambda>e. Some (js '' Old ''))\<rparr>"
  using unchanged_title_noop[where
      acts = "[Command, External (\<lambda>w. w\<lparr>textContent := (\<lambda>e. Some (js '' Old ''))\<rparr>), InputAt 3]"
      and ?w0.0 = example_world and v = example_view and f = example_file
      and evt = "keydown ''Enter'' 3" and el = 3 and raw = "js '' Old ''"
      and ?v1.0 = example_view and ?f1.0 = example_file
      and ?w1.0 = "example_world\<lparr>textContent := (\<lambda>e. Some (js '' Old ''))\<rparr>"]
  by (simp add: idle_def initial_plugin_def example_world_def example_view_def example_file_def
      external_def keydown_def dispatchKeydown_def dispatchInput_def handleEditorKeydown_def focusTitle_def
      cleanupTitleHandlers_def addEventListener_def removeEventListener_def
      trimmedText_def titleKeyHandler_call_def titleInputHandler_call_def saveTitleValue_def
      returnToEditor_def preventDefault_def stopPropagation_def Let_def
      trim_def isWhiteSpace_def js_def)

end
